theory Spec2Isabelle
  imports Complex_Main
begin

section \<open>Tensors of the runtime\<close>

text \<open>
  The file under verification is
  \<^verbatim>\<open>robustbench/model_zoo/architectures/Meansparse_wrn_70_16.py\<close>.
  A 4-D tensor is its shape (batch, channels, height, width) together with its element
  lookup; only the elements inside the shape belong to the tensor.
\<close>

subsection \<open>Element values\<close>

text \<open>
  An element is a finite real number, plus or minus infinity, or NaN, with the
  arithmetic of the float types on these: a division by zero gives an infinity or NaN,
  the square root of a negative number is NaN, and every comparison with NaN is false.
  What is not represented is rounding, overflow of finite results, and the sign of zero.
\<close>

datatype fl = Fin real | PInf | NInf | NaN

fun fneg :: "fl \<Rightarrow> fl" where
  "fneg (Fin a) = Fin (- a)"
| "fneg PInf = NInf"
| "fneg NInf = PInf"
| "fneg NaN = NaN"

fun fadd :: "fl \<Rightarrow> fl \<Rightarrow> fl" where
  "fadd (Fin a) (Fin b) = Fin (a + b)"
| "fadd (Fin a) PInf = PInf"
| "fadd (Fin a) NInf = NInf"
| "fadd PInf (Fin b) = PInf"
| "fadd PInf PInf = PInf"
| "fadd PInf NInf = NaN"
| "fadd NInf (Fin b) = NInf"
| "fadd NInf PInf = NaN"
| "fadd NInf NInf = NInf"
| "fadd NaN b = NaN"
| "fadd a NaN = NaN"

definition fsub :: "fl \<Rightarrow> fl \<Rightarrow> fl" where
  "fsub a b = fadd a (fneg b)"

fun fmul :: "fl \<Rightarrow> fl \<Rightarrow> fl" where
  "fmul (Fin a) (Fin b) = Fin (a * b)"
| "fmul (Fin a) PInf = (if a = 0 then NaN else if 0 < a then PInf else NInf)"
| "fmul (Fin a) NInf = (if a = 0 then NaN else if 0 < a then NInf else PInf)"
| "fmul PInf (Fin b) = (if b = 0 then NaN else if 0 < b then PInf else NInf)"
| "fmul NInf (Fin b) = (if b = 0 then NaN else if 0 < b then NInf else PInf)"
| "fmul PInf PInf = PInf"
| "fmul PInf NInf = NInf"
| "fmul NInf PInf = NInf"
| "fmul NInf NInf = PInf"
| "fmul NaN b = NaN"
| "fmul a NaN = NaN"

fun fdiv :: "fl \<Rightarrow> fl \<Rightarrow> fl" where
  "fdiv (Fin a) (Fin b) =
     (if b = 0 then (if a = 0 then NaN else if 0 < a then PInf else NInf)
      else Fin (a / b))"
| "fdiv (Fin a) PInf = Fin 0"
| "fdiv (Fin a) NInf = Fin 0"
| "fdiv PInf (Fin b) = (if 0 \<le> b then PInf else NInf)"
| "fdiv NInf (Fin b) = (if 0 \<le> b then NInf else PInf)"
| "fdiv PInf PInf = NaN"
| "fdiv PInf NInf = NaN"
| "fdiv NInf PInf = NaN"
| "fdiv NInf NInf = NaN"
| "fdiv NaN b = NaN"
| "fdiv a NaN = NaN"

fun fsqrt :: "fl \<Rightarrow> fl" where
  "fsqrt (Fin a) = (if a < 0 then NaN else Fin (sqrt a))"
| "fsqrt PInf = PInf"
| "fsqrt NInf = NaN"
| "fsqrt NaN = NaN"

fun fabs :: "fl \<Rightarrow> fl" where
  "fabs (Fin a) = Fin \<bar>a\<bar>"
| "fabs PInf = PInf"
| "fabs NInf = PInf"
| "fabs NaN = NaN"

text \<open>The comparison \<^verbatim>\<open><\<close>.\<close>

fun flt :: "fl \<Rightarrow> fl \<Rightarrow> bool" where
  "flt (Fin a) (Fin b) = (a < b)"
| "flt (Fin a) PInf = True"
| "flt NInf (Fin b) = True"
| "flt NInf PInf = True"
| "flt a b = False"

text \<open>Sum of a list of values, from 0.\<close>

definition fsum :: "fl list \<Rightarrow> fl" where
  "fsum xs = foldr fadd xs (Fin 0)"

subsection \<open>Tensors\<close>

record tensor =
  tN :: nat
  tC :: nat
  tH :: nat
  tW :: nat
  elem :: "nat \<Rightarrow> nat \<Rightarrow> nat \<Rightarrow> nat \<Rightarrow> fl"

datatype error = RuntimeError | ValueError string | AssertionError | TypeError | AttributeError

text \<open>
  Broadcasting of one dimension: two sizes are compatible when they are equal or one of
  them is 1; the size-1 operand is then read at index 0.
\<close>

definition bdim :: "nat \<Rightarrow> nat \<Rightarrow> nat option" where
  "bdim a b = (if a = b then Some a else if a = 1 then Some b
               else if b = 1 then Some a else None)"

definition bidx :: "nat \<Rightarrow> nat \<Rightarrow> nat" where
  "bidx k i = (if k = 1 then 0 else i)"

text \<open>Sum of \<open>f\<close> over the batch, height and width positions of channel \<open>c\<close>.\<close>

definition chan_sum :: "tensor \<Rightarrow> (fl \<Rightarrow> fl) \<Rightarrow> nat \<Rightarrow> fl" where
  "chan_sum x f c =
     fsum (map (\<lambda>n. fsum (map (\<lambda>h. fsum (map (\<lambda>w. f (elem x n c h w))
       [0..<tW x])) [0..<tH x])) [0..<tN x])"

definition chan_count :: "tensor \<Rightarrow> nat" where
  "chan_count x = tN x * tH x * tW x"

text \<open>
  \<^verbatim>\<open>torch.mean(x, dim=(0, 2, 3))\<close>: one value per channel; NaN when there is no
  position to average over.
\<close>

definition chan_mean :: "tensor \<Rightarrow> nat \<Rightarrow> fl" where
  "chan_mean x c = fdiv (chan_sum x (\<lambda>v. v) c) (Fin (real (chan_count x)))"

definition torch_mean :: "tensor \<Rightarrow> fl list" where
  "torch_mean x = map (chan_mean x) [0..<tC x]"

text \<open>
  \<^verbatim>\<open>torch.var(x, dim=(0, 2, 3))\<close>: the unbiased estimator (Bessel's correction is the
  default of \<^verbatim>\<open>torch.var\<close>).  The divisor is the number of positions less one, and 0
  when there is no position; so the variance over fewer than two positions is NaN.
\<close>

definition torch_var :: "tensor \<Rightarrow> fl list" where
  "torch_var x =
     map (\<lambda>c. fdiv (chan_sum x (\<lambda>v. fmul (fsub v (chan_mean x c)) (fsub v (chan_mean x c))) c)
                 (Fin (real (chan_count x - 1)))) [0..<tC x]"

text \<open>
  In-place addition \<^verbatim>\<open>buf += v\<close> on vectors: \<open>v\<close> must broadcast to the shape of
  \<open>buf\<close>, otherwise the runtime raises and \<open>buf\<close> is not changed.
\<close>

definition iadd :: "fl list \<Rightarrow> fl list \<Rightarrow> error + fl list" where
  "iadd buf v =
     (if length v = length buf \<or> length v = 1
      then Inr (map (\<lambda>i. fadd (buf ! i) (v ! bidx (length v) i)) [0..<length buf])
      else Inl RuntimeError)"

section \<open>MeanSparse\<close>

text \<open>The five registered buffers of a \<^verbatim>\<open>MeanSparse\<close> module.\<close>

record meansparse =
  running_mean :: "fl list"
  running_var :: "fl list"
  threshold :: fl
  flag_update_statistics :: int
  batch_num :: fl

text \<open>\<^verbatim>\<open>MeanSparse.__init__\<close>.\<close>

definition MeanSparse_init :: "nat \<Rightarrow> meansparse" where
  "MeanSparse_init in_planes =
     \<lparr> running_mean = replicate in_planes (Fin 0),
       running_var = replicate in_planes (Fin 0),
       threshold = Fin 0,
       flag_update_statistics = 0,
       batch_num = Fin 0 \<rparr>"

text \<open>
  One element of
  \<^verbatim>\<open>torch.where(torch.abs(diff) < crop, bias*torch.ones_like(input), input)\<close>, with
  \<^verbatim>\<open>diff = input - bias\<close> and \<^verbatim>\<open>crop = threshold * torch.sqrt(running_var)\<close>.
\<close>

definition where_elem :: "fl \<Rightarrow> fl \<Rightarrow> fl \<Rightarrow> fl \<Rightarrow> fl" where
  "where_elem thr b v x =
     (if flt (fabs (fsub x b)) (fmul thr (fsqrt v)) then fmul b (Fin 1) else x)"

text \<open>Lines 102-104 of \<^verbatim>\<open>forward\<close>: the calibration update of the statistics.\<close>

definition update_statistics :: "meansparse \<Rightarrow> tensor \<Rightarrow> (error + unit) \<times> meansparse" where
  "update_statistics self input =
     (if flag_update_statistics self \<noteq> 0 then
        (case iadd (running_mean self)
                (map (\<lambda>m. fdiv m (batch_num self)) (torch_mean input)) of
           Inl e \<Rightarrow> (Inl e, self)
         | Inr rm \<Rightarrow>
            (case iadd (running_var self)
                    (map (\<lambda>v. fdiv v (batch_num self)) (torch_var input)) of
               Inl e \<Rightarrow> (Inl e, self\<lparr>running_mean := rm\<rparr>)
             | Inr rv \<Rightarrow> (Inr (), self\<lparr>running_mean := rm, running_var := rv\<rparr>)))
      else (Inr (), self))"

text \<open>
  Lines 106-127 of \<^verbatim>\<open>forward\<close>.  \<^verbatim>\<open>diff = input - bias\<close> is computed in both
  branches, so a channel count that does not broadcast against \<^verbatim>\<open>running_mean\<close>
  raises even when the threshold is 0.
\<close>

definition sparsify :: "meansparse \<Rightarrow> tensor \<Rightarrow> error + tensor" where
  "sparsify self input =
     (case bdim (tC input) (length (running_mean self)) of
        None \<Rightarrow> Inl RuntimeError
      | Some cd \<Rightarrow>
         if threshold self = Fin 0 then Inr input
         else
           (case bdim cd (length (running_var self)) of
              None \<Rightarrow> Inl RuntimeError
            | Some co \<Rightarrow>
               Inr \<lparr> tN = tN input, tC = co, tH = tH input, tW = tW input,
                     elem = (\<lambda>n c h w.
                        where_elem (threshold self)
                          (running_mean self ! bidx (length (running_mean self)) c)
                          (running_var self ! bidx (length (running_var self)) c)
                          (elem input n (bidx (tC input) c) h w)) \<rparr>))"

text \<open>
  \<^verbatim>\<open>MeanSparse.forward\<close>: the result (or the exception raised) and the buffers after
  the call.
\<close>

definition forward :: "meansparse \<Rightarrow> tensor \<Rightarrow> (error + tensor) \<times> meansparse" where
  "forward self input =
     (case update_statistics self input of
        (Inl e, self') \<Rightarrow> (Inl e, self')
      | (Inr u, self') \<Rightarrow> (sparsify self' input, self'))"




subsection \<open>The graph that autograd records\<close>






section \<open>Framework operations used by the blocks\<close>

text \<open>
  Layers of the framework (\<^verbatim>\<open>nn.BatchNorm2d\<close>, \<^verbatim>\<open>nn.Conv2d\<close>, the activation,
  \<^verbatim>\<open>nn.Linear\<close>) are parameters of the model: functions on tensors.
\<close>

type_synonym layer = "tensor \<Rightarrow> tensor"

text \<open>
  \<^verbatim>\<open>F.pad(x, (l, r, t, b))\<close> with the default constant mode: \<open>l\<close> and \<open>r\<close> zeros are
  added before and after the last dimension, \<open>t\<close> and \<open>b\<close> before and after the one
  before it.
\<close>

definition F_pad :: "nat \<times> nat \<times> nat \<times> nat \<Rightarrow> tensor \<Rightarrow> tensor" where
  "F_pad p x =
     (case p of (l, r, t, b) \<Rightarrow>
        \<lparr> tN = tN x, tC = tC x, tH = tH x + t + b, tW = tW x + l + r,
          elem = (\<lambda>n c h w.
             if t \<le> h \<and> h < t + tH x \<and> l \<le> w \<and> w < l + tW x
             then elem x n c (h - t) (w - l) else Fin 0) \<rparr>)"

text \<open>\<^verbatim>\<open>torch.add(a, b)\<close> and \<^verbatim>\<open>a + b\<close>: elementwise, broadcasting every dimension.\<close>

definition torch_add :: "tensor \<Rightarrow> tensor \<Rightarrow> error + tensor" where
  "torch_add a b =
     (case (bdim (tN a) (tN b), bdim (tC a) (tC b), bdim (tH a) (tH b), bdim (tW a) (tW b)) of
        (Some n, Some c, Some h, Some w) \<Rightarrow>
          Inr \<lparr> tN = n, tC = c, tH = h, tW = w,
                elem = (\<lambda>i j k l.
                   fadd
                     (elem a (bidx (tN a) i) (bidx (tC a) j) (bidx (tH a) k) (bidx (tW a) l))
                     (elem b (bidx (tN b) i) (bidx (tC b) j) (bidx (tH b) k) (bidx (tW b) l))) \<rparr>
      | _ \<Rightarrow> Inl RuntimeError)"

section \<open>The WideResNet block\<close>

text \<open>The attributes that \<^verbatim>\<open>_Block.__init__\<close> sets.\<close>

record block =
  batchnorm_0 :: layer
  meansparse_0 :: meansparse
  relu_0 :: layer
  conv_0 :: layer
  batchnorm_1 :: layer
  meansparse_1 :: meansparse
  relu_1 :: layer
  conv_1 :: layer
  has_shortcut :: bool
  shortcut :: "layer option"
  stride :: int
  meansparse_2 :: meansparse

text \<open>
  \<^verbatim>\<open>_Block.__init__\<close>.  The framework layers it creates are passed in: \<open>bn0\<close>, \<open>cv0\<close>,
  \<open>bn1\<close>, \<open>cv1\<close> and \<open>sc\<close> for the two batch norms, the two 3x3 convolutions and the 1x1
  shortcut convolution, \<open>act\<close> for an instance of \<^verbatim>\<open>activation_fn\<close>.
\<close>

definition Block_init ::
  "layer \<Rightarrow> layer \<Rightarrow> layer \<Rightarrow> layer \<Rightarrow> layer \<Rightarrow> layer \<Rightarrow> nat \<Rightarrow> nat \<Rightarrow> int \<Rightarrow> block" where
  "Block_init bn0 act cv0 bn1 cv1 sc in_planes out_planes strd =
     \<lparr> batchnorm_0 = bn0,
       meansparse_0 = MeanSparse_init in_planes,
       relu_0 = act,
       conv_0 = cv0,
       batchnorm_1 = bn1,
       meansparse_1 = MeanSparse_init out_planes,
       relu_1 = act,
       conv_1 = cv1,
       has_shortcut = (in_planes \<noteq> out_planes),
       shortcut = (if in_planes \<noteq> out_planes then Some sc else None),
       stride = strd,
       meansparse_2 = MeanSparse_init out_planes \<rparr>"

text \<open>Lines 200-205 of \<^verbatim>\<open>_Block.forward\<close>: the manual padding, by stride.\<close>

definition block_pad :: "int \<Rightarrow> tensor \<Rightarrow> error + tensor" where
  "block_pad strd v =
     (if strd = 1 then Inr (F_pad (1, 1, 1, 1) v)
      else if strd = 2 then Inr (F_pad (0, 1, 0, 1) v)
      else Inl (ValueError ''Unsupported `stride`.''))"

text \<open>
  \<^verbatim>\<open>self.shortcut(x) if self.has_shortcut else x\<close>; calling the attribute when it is
  \<^verbatim>\<open>None\<close> is a \<^verbatim>\<open>TypeError\<close>.
\<close>

definition block_skip :: "block \<Rightarrow> tensor \<Rightarrow> error + tensor" where
  "block_skip self x =
     (if has_shortcut self
      then (case shortcut self of Some sc \<Rightarrow> Inr (sc x) | None \<Rightarrow> Inl TypeError)
      else Inr x)"

text \<open>
  \<^verbatim>\<open>_Block.forward\<close>: the result (or the exception) and the block with the buffers of
  its three \<^verbatim>\<open>MeanSparse\<close> modules after the call.  In the source the pre-activation
  is bound to \<^verbatim>\<open>x\<close> when the block has a shortcut and to \<^verbatim>\<open>out\<close> otherwise.
\<close>

definition block_forward :: "block \<Rightarrow> tensor \<Rightarrow> (error + tensor) \<times> block" where
  "block_forward self x =
     (case forward (meansparse_0 self) (batchnorm_0 self x) of
        (Inl e, m0) \<Rightarrow> (Inl e, self\<lparr>meansparse_0 := m0\<rparr>)
      | (Inr y0, m0) \<Rightarrow>
         (let x1 = (if has_shortcut self then relu_0 self y0 else x);
              out0 = relu_0 self y0;
              v = (if has_shortcut self then x1 else out0)
          in case block_pad (stride self) v of
               Inl e \<Rightarrow> (Inl e, self\<lparr>meansparse_0 := m0\<rparr>)
             | Inr v1 \<Rightarrow>
                (case forward (meansparse_1 self) (batchnorm_1 self (conv_0 self v1)) of
                   (Inl e, m1) \<Rightarrow> (Inl e, self\<lparr>meansparse_0 := m0, meansparse_1 := m1\<rparr>)
                 | (Inr y1, m1) \<Rightarrow>
                    (case block_skip self x1 of
                       Inl e \<Rightarrow> (Inl e, self\<lparr>meansparse_0 := m0, meansparse_1 := m1\<rparr>)
                     | Inr sk \<Rightarrow>
                        (case torch_add sk (conv_1 self (relu_1 self y1)) of
                           Inl e \<Rightarrow>
                             (Inl e, self\<lparr>meansparse_0 := m0, meansparse_1 := m1\<rparr>)
                         | Inr s \<Rightarrow>
                            (case forward (meansparse_2 self) s of
                               (r, m2) \<Rightarrow>
                                 (r, self\<lparr>meansparse_0 := m0, meansparse_1 := m1,
                                          meansparse_2 := m2\<rparr>)))))))"

text \<open>
  \<^verbatim>\<open>nn.Sequential\<close> over blocks, as \<^verbatim>\<open>_BlockGroup.forward\<close> runs it: each block is
  called on the result of the one before, in list order; an exception stops the chain.
\<close>

fun group_forward :: "block list \<Rightarrow> tensor \<Rightarrow> (error + tensor) \<times> block list" where
  "group_forward [] x = (Inr x, [])"
| "group_forward (b # bs) x =
     (case block_forward b x of
        (Inl e, b') \<Rightarrow> (Inl e, b' # bs)
      | (Inr y, b') \<Rightarrow> (case group_forward bs y of (r, bs') \<Rightarrow> (r, b' # bs')))"

text \<open>The outer \<^verbatim>\<open>nn.Sequential\<close> of \<^verbatim>\<open>DMWideResNet.layer\<close>, over the block groups.\<close>

fun layer_forward :: "block list list \<Rightarrow> tensor \<Rightarrow> (error + tensor) \<times> block list list" where
  "layer_forward [] x = (Inr x, [])"
| "layer_forward (g # gs) x =
     (case group_forward g x of
        (Inl e, g') \<Rightarrow> (Inl e, g' # gs)
      | (Inr y, g') \<Rightarrow> (case layer_forward gs y of (r, gs') \<Rightarrow> (r, g' # gs')))"

section \<open>The forward pass of the WideResNet\<close>

text \<open>The attributes that \<^verbatim>\<open>DMWideResNet.__init__\<close> sets and \<^verbatim>\<open>forward\<close> reads.\<close>

record dmwideresnet =
  wrn_mean :: "fl list"
  wrn_std :: "fl list"
  wrn_padding :: int
  init_conv :: layer
  wrn_layer :: "block list list"
  wrn_batchnorm :: layer
  meansparse_end :: meansparse
  wrn_relu :: layer
  logits :: layer
  num_channels :: int

text \<open>
  \<^verbatim>\<open>(x - self.mean) / self.std\<close>, with the two buffers of shape (channels, 1, 1)
  broadcast against the input.
\<close>

definition normalize :: "fl list \<Rightarrow> fl list \<Rightarrow> tensor \<Rightarrow> error + tensor" where
  "normalize mean std x =
     (case bdim (tC x) (length mean) of
        None \<Rightarrow> Inl RuntimeError
      | Some c1 \<Rightarrow>
         (case bdim c1 (length std) of
            None \<Rightarrow> Inl RuntimeError
          | Some c2 \<Rightarrow>
             Inr \<lparr> tN = tN x, tC = c2, tH = tH x, tW = tW x,
                   elem = (\<lambda>n c h w.
                      fdiv
                        (fsub (elem x n (bidx (tC x) c) h w) (mean ! bidx (length mean) c))
                        (std ! bidx (length std) c)) \<rparr>))"

text \<open>
  \<^verbatim>\<open>DMWideResNet.forward\<close>.  \<^verbatim>\<open>F.avg_pool2d\<close> and \<^verbatim>\<open>Tensor.view\<close> are the
  framework's and are parameters: \<open>avg_pool2d k\<close> pools with kernel size \<open>k\<close> and
  \<open>view c\<close> is \<^verbatim>\<open>view(-1, c)\<close>.
\<close>

definition DMWideResNet_forward ::
  "(nat \<Rightarrow> layer) \<Rightarrow> (int \<Rightarrow> layer) \<Rightarrow> dmwideresnet \<Rightarrow> tensor
     \<Rightarrow> (error + tensor) \<times> dmwideresnet" where
  "DMWideResNet_forward avg_pool2d view self x =
     (let p = nat (wrn_padding self);
          x1 = (if wrn_padding self > 0 then F_pad (p, p, p, p) x else x)
      in case normalize (wrn_mean self) (wrn_std self) x1 of
           Inl e \<Rightarrow> (Inl e, self)
         | Inr out \<Rightarrow>
            (case layer_forward (wrn_layer self) (init_conv self out) of
               (Inl e, l') \<Rightarrow> (Inl e, self\<lparr>wrn_layer := l'\<rparr>)
             | (Inr out1, l') \<Rightarrow>
                (case forward (meansparse_end self) (wrn_batchnorm self out1) of
                   (Inl e, m) \<Rightarrow> (Inl e, self\<lparr>wrn_layer := l', meansparse_end := m\<rparr>)
                 | (Inr y, m) \<Rightarrow>
                    (Inr (logits self (view (num_channels self)
                            (avg_pool2d 8 (wrn_relu self y)))),
                     self\<lparr>wrn_layer := l', meansparse_end := m\<rparr>))))"

section \<open>Construction of the groups and of the networks\<close>

text \<open>
  Python's \<^verbatim>\<open>c and a or b\<close> on integers \<open>a\<close>, \<open>b\<close>: it is \<open>a\<close> when \<open>c\<close> holds and
  \<open>a\<close> is truthy (not 0), and \<open>b\<close> otherwise.
\<close>

definition and_or :: "bool \<Rightarrow> int \<Rightarrow> int \<Rightarrow> int" where
  "and_or c a b = (if c \<and> a \<noteq> 0 then a else b)"

text \<open>
  \<^verbatim>\<open>_BlockGroup.__init__\<close>: the arguments (in_planes, out_planes, stride) of the calls
  of \<^verbatim>\<open>_Block\<close>, in the order in which the blocks are appended and then handed to
  \<^verbatim>\<open>nn.Sequential\<close>.  \<^verbatim>\<open>range(num_blocks)\<close> is empty for a negative \<open>num_blocks\<close>.
\<close>

definition BlockGroup_init :: "int \<Rightarrow> int \<Rightarrow> int \<Rightarrow> int \<Rightarrow> (int \<times> int \<times> int) list" where
  "BlockGroup_init num_blocks in_planes out_planes strd =
     map (\<lambda>i. (and_or (i = 0) in_planes out_planes, out_planes, and_or (i = 0) strd 1))
       [0..<nat num_blocks]"

text \<open>\<^verbatim>\<open>enumerate\<close>.\<close>

definition enumerate_list :: "'a list \<Rightarrow> (nat \<times> 'a) list" where
  "enumerate_list xs = zip [0..<length xs] xs"

text \<open>
  \<^verbatim>\<open>DMPreActResNet._make_layer\<close>: the arguments of the calls of \<^verbatim>\<open>_PreActBlock\<close>, in
  order.  \<^verbatim>\<open>[1] * (num_blocks - 1)\<close> is empty when \<open>num_blocks - 1\<close> is not positive.
\<close>

definition make_layer :: "int \<Rightarrow> int \<Rightarrow> int \<Rightarrow> int \<Rightarrow> (int \<times> int \<times> int) list" where
  "make_layer in_planes out_planes num_blocks strd =
     map (\<lambda>(i, st). (and_or (i = 0) in_planes out_planes, out_planes, st))
       (enumerate_list ([strd] @ replicate (nat (num_blocks - 1)) 1))"





section \<open>Modules registered by the two kinds of block\<close>

text \<open>
  The submodules that a constructor assigns to attributes, with their constructor
  arguments: \<^verbatim>\<open>Conv2d\<close> carries in_channels, out_channels, kernel_size, stride and
  padding.
\<close>

datatype module =
    BatchNorm2d int
  | MeanSparse int
  | Activation
  | Conv2d int int int int int

fun is_MeanSparse :: "module \<Rightarrow> bool" where
  "is_MeanSparse (MeanSparse p) = True"
| "is_MeanSparse m = False"

text \<open>\<^verbatim>\<open>_Block.__init__\<close>, lines 161-192, in the order of assignment.\<close>

definition Block_modules :: "int \<Rightarrow> int \<Rightarrow> int \<Rightarrow> (string \<times> module) list" where
  "Block_modules in_planes out_planes strd =
     [(''batchnorm_0'', BatchNorm2d in_planes),
      (''meansparse_0'', MeanSparse in_planes),
      (''relu_0'', Activation),
      (''conv_0'', Conv2d in_planes out_planes 3 strd 0),
      (''batchnorm_1'', BatchNorm2d out_planes),
      (''meansparse_1'', MeanSparse out_planes),
      (''relu_1'', Activation),
      (''conv_1'', Conv2d out_planes out_planes 3 1 1)]
     @ (if in_planes \<noteq> out_planes
        then [(''shortcut'', Conv2d in_planes out_planes 1 strd 0)] else [])
     @ [(''meansparse_2'', MeanSparse out_planes)]"

text \<open>\<^verbatim>\<open>_PreActBlock.__init__\<close>, lines 305-319, in the order of assignment.\<close>

definition PreActBlock_modules :: "int \<Rightarrow> int \<Rightarrow> int \<Rightarrow> (string \<times> module) list" where
  "PreActBlock_modules in_planes out_planes strd =
     [(''batchnorm_0'', BatchNorm2d in_planes),
      (''relu_0'', Activation),
      (''conv_2d_1'', Conv2d in_planes out_planes 3 strd 0),
      (''batchnorm_1'', BatchNorm2d out_planes),
      (''relu_1'', Activation),
      (''conv_2d_2'', Conv2d out_planes out_planes 3 1 1)]
     @ (if strd \<noteq> 1 \<or> in_planes \<noteq> out_planes
        then [(''shortcut'', Conv2d in_planes out_planes 3 strd 0)] else [])"

section \<open>The pre-activation ResNet block\<close>

text \<open>The attributes that \<^verbatim>\<open>_PreActBlock.__init__\<close> sets.\<close>

record preact_block =
  pre_stride :: int
  pre_batchnorm_0 :: layer
  pre_relu_0 :: layer
  pre_conv_2d_1 :: layer
  pre_batchnorm_1 :: layer
  pre_relu_1 :: layer
  pre_conv_2d_2 :: layer
  pre_has_shortcut :: bool
  pre_shortcut :: "layer option"

text \<open>\<^verbatim>\<open>_PreActBlock._pad\<close>.\<close>

definition preact_pad :: "preact_block \<Rightarrow> tensor \<Rightarrow> error + tensor" where
  "preact_pad self x =
     (if pre_stride self = 1 then Inr (F_pad (1, 1, 1, 1) x)
      else if pre_stride self = 2 then Inr (F_pad (0, 1, 0, 1) x)
      else Inl (ValueError ''Unsupported `stride`.''))"

text \<open>
  \<^verbatim>\<open>_PreActBlock.forward\<close>.  The attribute \<^verbatim>\<open>shortcut\<close> exists only when the block
  has a shortcut; reading it otherwise is an \<^verbatim>\<open>AttributeError\<close>.
\<close>

definition preact_forward :: "preact_block \<Rightarrow> tensor \<Rightarrow> error + tensor" where
  "preact_forward self x =
     (let out = pre_relu_0 self (pre_batchnorm_0 self x) in
      case (if pre_has_shortcut self
            then (case preact_pad self x of
                    Inl e \<Rightarrow> Inl e
                  | Inr px \<Rightarrow> (case pre_shortcut self of
                                Some sc \<Rightarrow> Inr (sc px) | None \<Rightarrow> Inl AttributeError))
            else Inr x) of
        Inl e \<Rightarrow> Inl e
      | Inr sk \<Rightarrow>
         (case preact_pad self out of
            Inl e \<Rightarrow> Inl e
          | Inr pout \<Rightarrow>
             torch_add
               (pre_conv_2d_2 self (pre_relu_1 self (pre_batchnorm_1 self
                  (pre_conv_2d_1 self pout))))
               sk))"

text \<open>
  \<^verbatim>\<open>_PreActBlock.__init__\<close>, with the framework layers it creates passed in, as for
  \<open>Block_init\<close>; the shortcut here is a 3x3 convolution.
\<close>

definition PreActBlock_init ::
  "layer \<Rightarrow> layer \<Rightarrow> layer \<Rightarrow> layer \<Rightarrow> layer \<Rightarrow> layer \<Rightarrow> nat \<Rightarrow> nat \<Rightarrow> int
     \<Rightarrow> preact_block" where
  "PreActBlock_init bn0 act cv1 bn1 cv2 sc in_planes out_planes strd =
     \<lparr> pre_stride = strd,
       pre_batchnorm_0 = bn0,
       pre_relu_0 = act,
       pre_conv_2d_1 = cv1,
       pre_batchnorm_1 = bn1,
       pre_relu_1 = act,
       pre_conv_2d_2 = cv2,
       pre_has_shortcut = (strd \<noteq> 1 \<or> in_planes \<noteq> out_planes),
       pre_shortcut = (if strd \<noteq> 1 \<or> in_planes \<noteq> out_planes then Some sc else None) \<rparr>"

text \<open>
  \<^verbatim>\<open>nn.Sequential\<close> over pre-activation blocks, as the layers that \<^verbatim>\<open>_make_layer\<close>
  returns are run.
\<close>

fun preact_layer_forward :: "preact_block list \<Rightarrow> tensor \<Rightarrow> error + tensor" where
  "preact_layer_forward [] x = Inr x"
| "preact_layer_forward (b # bs) x =
     (case preact_forward b x of
        Inl e \<Rightarrow> Inl e
      | Inr y \<Rightarrow> preact_layer_forward bs y)"

section \<open>Concrete inputs\<close>

text \<open>
  A module in calibration (flag 1, batch number 2) with threshold 1 on two channels, and
  an input of shape (1, 2, 1, 2) with the rows 2, 4 and 1, 5.
\<close>

definition example_state :: meansparse where
  "example_state =
     \<lparr> running_mean = [Fin 1, Fin 2], running_var = [Fin 0, Fin 0], threshold = Fin 1,
       flag_update_statistics = 1, batch_num = Fin 2 \<rparr>"

definition example_input :: tensor where
  "example_input =
     \<lparr> tN = 1, tC = 2, tH = 1, tW = 2,
       elem = (\<lambda>n c h w. if c = 0 then (if w = 0 then Fin 2 else Fin 4)
                          else (if w = 0 then Fin 1 else Fin 5)) \<rparr>"

text \<open>
  The same module with three channels of statistics, and with two channels in
  \<open>running_mean\<close> and three in \<open>running_var\<close>; a tensor of shape (1, 2, 1, 1).
\<close>

definition example_state3 :: meansparse where
  "example_state3 =
     \<lparr> running_mean = [Fin 1, Fin 2, Fin 3], running_var = [Fin 0, Fin 0, Fin 0],
       threshold = Fin 1, flag_update_statistics = 1, batch_num = Fin 2 \<rparr>"

definition example_state23 :: meansparse where
  "example_state23 =
     \<lparr> running_mean = [Fin 1, Fin 2], running_var = [Fin 0, Fin 0, Fin 0],
       threshold = Fin 1, flag_update_statistics = 1, batch_num = Fin 2 \<rparr>"

definition example_x2 :: tensor where
  "example_x2 = \<lparr> tN = 1, tC = 2, tH = 1, tW = 1, elem = (\<lambda>n c h w. Fin 0) \<rparr>"

text \<open>
  Small instances of the framework layers: the activation \<^verbatim>\<open>nn.ReLU\<close> (the default
  \<^verbatim>\<open>activation_fn\<close>); a 3x3 convolution without padding, stride 1, whose kernels are
  1 at the centre tap of input channel 0 and 0 elsewhere; a 1x1 convolution whose
  kernels are 10 on input channel 0.  Batch norms are taken as the identity.
\<close>

fun relu_elem :: "fl \<Rightarrow> fl" where
  "relu_elem (Fin a) = Fin (max 0 a)"
| "relu_elem PInf = PInf"
| "relu_elem NInf = Fin 0"
| "relu_elem NaN = NaN"

definition relu :: layer where
  "relu t = t\<lparr>elem := (\<lambda>n c h w. relu_elem (elem t n c h w))\<rparr>"

definition example_conv3 :: "nat \<Rightarrow> layer" where
  "example_conv3 out_planes t =
     \<lparr> tN = tN t, tC = out_planes, tH = tH t - 2, tW = tW t - 2,
       elem = (\<lambda>n c h w. elem t n 0 (h + 1) (w + 1)) \<rparr>"

definition example_conv1 :: "nat \<Rightarrow> layer" where
  "example_conv1 out_planes t =
     \<lparr> tN = tN t, tC = out_planes, tH = tH t, tW = tW t,
       elem = (\<lambda>n c h w. fmul (Fin 10) (elem t n 0 h w)) \<rparr>"

text \<open>
  \<^verbatim>\<open>_Block(1, 2, 1)\<close> (with a shortcut) and \<^verbatim>\<open>_Block(1, 1, 1)\<close> (without), and
  the input of shape (1, 1, 1, 1) holding -3.
\<close>

definition example_block :: block where
  "example_block =
     Block_init (\<lambda>t. t) relu (example_conv3 2) (\<lambda>t. t) (\<lambda>t. t) (example_conv1 2) 1 2 1"

definition example_block_plain :: block where
  "example_block_plain =
     Block_init (\<lambda>t. t) relu (example_conv3 1) (\<lambda>t. t) (\<lambda>t. t) (example_conv1 1) 1 1 1"

definition example_x :: tensor where
  "example_x = \<lparr> tN = 1, tC = 1, tH = 1, tW = 1, elem = (\<lambda>n c h w. Fin (- 3)) \<rparr>"

text \<open>\<^verbatim>\<open>_Block(3, 2, 3)\<close>: three input planes and the unsupported stride 3.\<close>

definition example_block_stride3 :: block where
  "example_block_stride3 =
     Block_init (\<lambda>t. t) relu (example_conv3 2) (\<lambda>t. t) (\<lambda>t. t) (example_conv1 2) 3 2 3"

text \<open>\<^verbatim>\<open>_PreActBlock(1, 1, 1)\<close> over the same layers.\<close>

definition example_preact :: preact_block where
  "example_preact =
     PreActBlock_init (\<lambda>t. t) relu (example_conv3 1) (\<lambda>t. t) (\<lambda>t. t) (example_conv3 1) 1 1 1"

text \<open>
  A network with one group of one block, \<^verbatim>\<open>_Block(1, 1, 1)\<close>, mean 0 and standard
  deviation 1, no padding, and the identity for the initial convolution, the final batch
  norm and the linear layer.
\<close>

definition example_wrn :: dmwideresnet where
  "example_wrn =
     \<lparr> wrn_mean = [Fin 0], wrn_std = [Fin 1], wrn_padding = 0, init_conv = (\<lambda>t. t),
       wrn_layer = [[example_block_plain]], wrn_batchnorm = (\<lambda>t. t),
       meansparse_end = MeanSparse_init 1, wrn_relu = relu, logits = (\<lambda>t. t),
       num_channels = 1 \<rparr>"

section \<open>Properties of MeanSparse\<close>

lemma bdim_same: "bdim a a = Some a"
  by (simp add: bdim_def)

lemma update_statistics_flag_zero:
  "flag_update_statistics self = 0 \<Longrightarrow> update_statistics self input = (Inr (), self)"
  by (simp add: update_statistics_def)

lemma forward_flag_zero:
  "flag_update_statistics self = 0 \<Longrightarrow> forward self input = (sparsify self input, self)"
  by (simp add: forward_def update_statistics_flag_zero)

lemma sparsify_threshold_zero:
  "threshold self = Fin 0 \<Longrightarrow>
   sparsify self input =
     (if bdim (tC input) (length (running_mean self)) = None then Inl RuntimeError
      else Inr input)"
  by (simp add: sparsify_def split: option.splits)

lemma forward_fresh:
  "forward (MeanSparse_init p) x =
     ((if bdim (tC x) p = None then Inl RuntimeError else Inr x), MeanSparse_init p)"
proof -
  have fl: "flag_update_statistics (MeanSparse_init p) = 0"
    and th: "threshold (MeanSparse_init p) = Fin 0"
    and len: "length (running_mean (MeanSparse_init p)) = p"
    by (simp_all add: MeanSparse_init_def)
  show ?thesis
    using forward_flag_zero [OF fl, of x] sparsify_threshold_zero [OF th, of x] len
    by simp
qed

text \<open>
  Claim C5, as amended.  A freshly constructed \<^verbatim>\<open>MeanSparse(in_planes)\<close> has the
  all-zeros vector of length \<open>in_planes\<close> in \<open>running_mean\<close> and in \<open>running_var\<close>,
  threshold 0, flag 0 and batch number 0.  On every 4-D input whose channel count
  broadcasts against \<open>in_planes\<close> its forward returns the input itself, on every other
  4-D input it raises, and in both cases no buffer is changed.
\<close>

theorem meansparse_fresh_identity:
  "running_mean (MeanSparse_init p) = replicate p (Fin 0) \<and>
   running_var (MeanSparse_init p) = replicate p (Fin 0) \<and>
   threshold (MeanSparse_init p) = Fin 0 \<and>
   flag_update_statistics (MeanSparse_init p) = 0 \<and>
   batch_num (MeanSparse_init p) = Fin 0 \<and>
   (bdim (tC x) p \<noteq> None \<longrightarrow>
      forward (MeanSparse_init p) x = (Inr x, MeanSparse_init p)) \<and>
   (bdim (tC x) p = None \<longrightarrow>
      forward (MeanSparse_init p) x = (Inl RuntimeError, MeanSparse_init p))"
  by (simp add: forward_fresh) (simp add: MeanSparse_init_def)

theorem meansparse_fresh_identity_witness:
  "bdim 3 3 \<noteq> None \<and>
   forward (MeanSparse_init 3)
     \<lparr>tN = 1, tC = 3, tH = 1, tW = 1, elem = (\<lambda>n c h w. Fin 7)\<rparr>
   = (Inr \<lparr>tN = 1, tC = 3, tH = 1, tW = 1, elem = (\<lambda>n c h w. Fin 7)\<rparr>, MeanSparse_init 3) \<and>
   bdim 2 3 = None \<and>
   forward (MeanSparse_init 3)
     \<lparr>tN = 1, tC = 2, tH = 1, tW = 1, elem = (\<lambda>n c h w. Fin 7)\<rparr>
   = (Inl RuntimeError, MeanSparse_init 3)"
  using meansparse_fresh_identity
    [of 3 "\<lparr>tN = 1, tC = 3, tH = 1, tW = 1, elem = (\<lambda>n c h w. Fin 7)\<rparr>"]
    meansparse_fresh_identity
    [of 3 "\<lparr>tN = 1, tC = 2, tH = 1, tW = 1, elem = (\<lambda>n c h w. Fin 7)\<rparr>"]
  by (simp add: bdim_def)

text \<open>
  Claim C5, as stated, fails: a fresh \<^verbatim>\<open>MeanSparse(3)\<close> called on a tensor with two
  channels raises at \<^verbatim>\<open>diff = input - bias\<close> instead of returning its input.
\<close>

theorem meansparse_fresh_identity_counterexample:
  "fst (forward (MeanSparse_init 3)
          \<lparr>tN = 1, tC = 2, tH = 1, tW = 1, elem = (\<lambda>n c h w. Fin 7)\<rparr>)
     = Inl RuntimeError \<and>
   fst (forward (MeanSparse_init 3)
          \<lparr>tN = 1, tC = 2, tH = 1, tW = 1, elem = (\<lambda>n c h w. Fin 7)\<rparr>)
     \<noteq> Inr \<lparr>tN = 1, tC = 2, tH = 1, tW = 1, elem = (\<lambda>n c h w. Fin 7)\<rparr>"
  by (simp add: forward_def update_statistics_def sparsify_def MeanSparse_init_def bdim_def)

lemma bidx_less: "length v = k \<or> length v = 1 \<Longrightarrow> i < k \<Longrightarrow> bidx (length v) i < length v"
  by (auto simp: bidx_def)

lemma iadd_map_ok:
  assumes "length v = length buf \<or> length v = 1"
  shows "iadd buf (map f v) =
           Inr (map (\<lambda>i. fadd (buf ! i) (f (v ! bidx (length v) i))) [0..<length buf])"
proof -
  have "\<And>i. i < length buf \<Longrightarrow> map f v ! bidx (length v) i = f (v ! bidx (length v) i)"
    using bidx_less [OF assms] by simp
  then show ?thesis
    using assms by (simp add: iadd_def)
qed

lemma length_torch_mean: "length (torch_mean x) = tC x"
  by (simp add: torch_mean_def)

lemma length_torch_var: "length (torch_var x) = tC x"
  by (simp add: torch_var_def)

lemma update_statistics_ok:
  assumes "flag_update_statistics s \<noteq> 0"
    and "tC x = length (running_mean s) \<or> tC x = 1"
    and "tC x = length (running_var s) \<or> tC x = 1"
  shows "update_statistics s x =
    (Inr (), s\<lparr>running_mean :=
          map (\<lambda>c. fadd (running_mean s ! c)
                       (fdiv (torch_mean x ! bidx (tC x) c) (batch_num s)))
            [0..<length (running_mean s)],
       running_var :=
          map (\<lambda>c. fadd (running_var s ! c)
                       (fdiv (torch_var x ! bidx (tC x) c) (batch_num s)))
            [0..<length (running_var s)]\<rparr>)"
proof -
  have m: "iadd (running_mean s) (map (\<lambda>m. fdiv m (batch_num s)) (torch_mean x)) =
      Inr (map (\<lambda>c. fadd (running_mean s ! c)
                       (fdiv (torch_mean x ! bidx (tC x) c) (batch_num s)))
            [0..<length (running_mean s)])"
    using iadd_map_ok [of "torch_mean x" "running_mean s" "\<lambda>m. fdiv m (batch_num s)"] assms(2)
    by (simp add: length_torch_mean)
  have v: "iadd (running_var s) (map (\<lambda>m. fdiv m (batch_num s)) (torch_var x)) =
      Inr (map (\<lambda>c. fadd (running_var s ! c)
                       (fdiv (torch_var x ! bidx (tC x) c) (batch_num s)))
            [0..<length (running_var s)])"
    using iadd_map_ok [of "torch_var x" "running_var s" "\<lambda>m. fdiv m (batch_num s)"] assms(3)
    by (simp add: length_torch_var)
  show ?thesis
    unfolding update_statistics_def using assms(1) by (simp add: m v)
qed

lemma update_statistics_threshold:
  "threshold (snd (update_statistics s x)) = threshold s"
  by (simp add: update_statistics_def split: sum.splits)

lemma update_statistics_same_channels:
  assumes "tC x = length (running_mean s)" and "tC x = length (running_var s)"
  shows "fst (update_statistics s x) = Inr () \<and>
         length (running_mean (snd (update_statistics s x))) = tC x \<and>
         length (running_var (snd (update_statistics s x))) = tC x"
proof (cases "flag_update_statistics s = 0")
  case True
  then show ?thesis using assms by (simp add: update_statistics_flag_zero)
next
  case False
  then show ?thesis using assms update_statistics_ok [of s x] by simp
qed

lemma forward_returns:
  "fst (forward s x) = Inr out \<longleftrightarrow>
   fst (update_statistics s x) = Inr () \<and> sparsify (snd (update_statistics s x)) x = Inr out"
  by (cases "update_statistics s x") (auto simp: forward_def split: sum.splits)

lemma forward_snd: "snd (forward s x) = snd (update_statistics s x)"
  by (cases "update_statistics s x") (auto simp: forward_def split: sum.splits)

lemma sparsify_zero_out: "threshold s = Fin 0 \<Longrightarrow> sparsify s x = Inr out \<Longrightarrow> out = x"
  by (auto simp: sparsify_def split: option.splits)

lemma sparsify_nonzero_out:
  assumes "threshold s \<noteq> Fin 0" and "sparsify s x = Inr out"
  shows "tN out = tN x \<and> tH out = tH x \<and> tW out = tW x \<and>
     Some (tC out) = Option.bind (bdim (tC x) (length (running_mean s)))
                       (\<lambda>cd. bdim cd (length (running_var s))) \<and>
     elem out = (\<lambda>n c h w. where_elem (threshold s)
                          (running_mean s ! bidx (length (running_mean s)) c)
                          (running_var s ! bidx (length (running_var s)) c)
                          (elem x n (bidx (tC x) c) h w))"
  using assms by (auto simp: sparsify_def split: option.splits)

lemma sparsify_same_channels:
  "tC x = length (running_mean s) \<Longrightarrow> tC x = length (running_var s) \<Longrightarrow>
   \<exists>out. sparsify s x = Inr out"
  by (auto simp: sparsify_def bdim_def)

lemma fmul_one: "fmul b (Fin 1) = b"
  by (cases b) simp_all

lemma where_elem_eq:
  "where_elem thr b v x =
     (if flt (fabs (fsub x b)) (fmul thr (fsqrt v)) then b else x)"
  by (simp add: where_elem_def fmul_one)


lemma example_chan_mean:
  "chan_mean example_input 0 = Fin 3" "chan_mean example_input (Suc 0) = Fin 3"
  by (simp_all add: chan_mean_def chan_sum_def fsum_def chan_count_def example_input_def
      upt_rec)

lemma example_mean: "torch_mean example_input = [Fin 3, Fin 3]"
  by (simp add: torch_mean_def example_chan_mean upt_rec)
    (simp add: example_input_def)

lemma example_var: "torch_var example_input = [Fin 2, Fin 8]"
  by (simp add: torch_var_def example_chan_mean upt_rec)
    (simp add: chan_sum_def fsum_def fsub_def chan_count_def example_input_def upt_rec
      example_chan_mean)

lemma example_update:
  "update_statistics example_state example_input =
     (Inr (), example_state\<lparr>running_mean := [Fin (5/2), Fin (7/2)], running_var := [Fin 1, Fin 4]\<rparr>)"
  by (simp add: update_statistics_def example_mean example_var example_state_def iadd_def
      bidx_def upt_rec)

lemma example_forward:
  "forward example_state example_input =
     (sparsify (example_state\<lparr>running_mean := [Fin (5/2), Fin (7/2)], running_var := [Fin 1, Fin 4]\<rparr>)
        example_input,
      example_state\<lparr>running_mean := [Fin (5/2), Fin (7/2)], running_var := [Fin 1, Fin 4]\<rparr>)"
  by (simp add: forward_def example_update)

lemma example_returns:
  "fst (forward example_state example_input) =
     Inr (projr (fst (forward example_state example_input)))"
  unfolding example_forward
  by (simp add: sparsify_def example_state_def example_input_def bdim_def)

lemma iadd_bad:
  "\<not> (length v = length buf \<or> length v = 1) \<Longrightarrow> iadd buf v = Inl RuntimeError"
  by (simp add: iadd_def)

lemma update_statistics_bad_mean:
  assumes "flag_update_statistics s \<noteq> 0"
    and "\<not> (tC x = length (running_mean s) \<or> tC x = 1)"
  shows "update_statistics s x = (Inl RuntimeError, s)"
proof -
  have "iadd (running_mean s) (map (\<lambda>m. fdiv m (batch_num s)) (torch_mean x))
          = Inl RuntimeError"
    using assms(2) by (intro iadd_bad) (simp add: length_torch_mean)
  then show ?thesis
    using assms(1) by (simp add: update_statistics_def)
qed

lemma update_statistics_bad_var:
  assumes "flag_update_statistics s \<noteq> 0"
    and "tC x = length (running_mean s) \<or> tC x = 1"
    and "\<not> (tC x = length (running_var s) \<or> tC x = 1)"
  shows "update_statistics s x =
    (Inl RuntimeError,
     s\<lparr>running_mean :=
          map (\<lambda>c. fadd (running_mean s ! c)
                       (fdiv (torch_mean x ! bidx (tC x) c) (batch_num s)))
            [0..<length (running_mean s)]\<rparr>)"
proof -
  have m: "iadd (running_mean s) (map (\<lambda>m. fdiv m (batch_num s)) (torch_mean x)) =
      Inr (map (\<lambda>c. fadd (running_mean s ! c)
                       (fdiv (torch_mean x ! bidx (tC x) c) (batch_num s)))
            [0..<length (running_mean s)])"
    using iadd_map_ok [of "torch_mean x" "running_mean s" "\<lambda>m. fdiv m (batch_num s)"] assms(2)
    by (simp add: length_torch_mean)
  have v: "iadd (running_var s) (map (\<lambda>v. fdiv v (batch_num s)) (torch_var x))
          = Inl RuntimeError"
    using assms(3) by (intro iadd_bad) (simp add: length_torch_var)
  show ?thesis
    unfolding update_statistics_def using assms(1) by (simp add: m v)
qed

lemma update_statistics_cases:
  "(flag_update_statistics s = 0 \<and> update_statistics s x = (Inr (), s)) \<or>
   (flag_update_statistics s \<noteq> 0 \<and>
    (tC x = length (running_mean s) \<or> tC x = 1) \<and>
    (tC x = length (running_var s) \<or> tC x = 1) \<and>
    fst (update_statistics s x) = Inr ()) \<or>
   (flag_update_statistics s \<noteq> 0 \<and>
    \<not> ((tC x = length (running_mean s) \<or> tC x = 1) \<and>
       (tC x = length (running_var s) \<or> tC x = 1)) \<and>
    fst (update_statistics s x) = Inl RuntimeError)"
proof (cases "flag_update_statistics s = 0")
  case True
  then show ?thesis by (simp add: update_statistics_flag_zero)
next
  case f: False
  show ?thesis
  proof (cases "tC x = length (running_mean s) \<or> tC x = 1")
    case False
    then show ?thesis using f update_statistics_bad_mean [OF f False] by simp
  next
    case m: True
    show ?thesis
    proof (cases "tC x = length (running_var s) \<or> tC x = 1")
      case False
      then show ?thesis using f m update_statistics_bad_var [OF f m False] by simp
    next
      case True
      then show ?thesis using f m update_statistics_ok [OF f m True] by simp
    qed
  qed
qed

lemma update_statistics_lengths:
  "length (running_mean (snd (update_statistics s x))) = length (running_mean s) \<and>
   length (running_var (snd (update_statistics s x))) = length (running_var s)"
proof (cases "flag_update_statistics s = 0")
  case True
  then show ?thesis by (simp add: update_statistics_flag_zero)
next
  case f: False
  show ?thesis
  proof (cases "tC x = length (running_mean s) \<or> tC x = 1")
    case False
    then show ?thesis using update_statistics_bad_mean [OF f False] by simp
  next
    case m: True
    show ?thesis
    proof (cases "tC x = length (running_var s) \<or> tC x = 1")
      case False
      then show ?thesis using update_statistics_bad_var [OF f m False] by simp
    next
      case True
      then show ?thesis using update_statistics_ok [OF f m True] by simp
    qed
  qed
qed

lemma update_statistics_returns_iff:
  "fst (update_statistics s x) = Inr () \<longleftrightarrow>
   flag_update_statistics s = 0 \<or>
   ((tC x = length (running_mean s) \<or> tC x = 1) \<and>
    (tC x = length (running_var s) \<or> tC x = 1))"
  using update_statistics_cases [of s x] by auto

lemma sparsify_returns_iff:
  "(\<exists>r. sparsify s x = Inr r) \<longleftrightarrow>
   bdim (tC x) (length (running_mean s)) \<noteq> None \<and>
   (threshold s = Fin 0 \<or>
    Option.bind (bdim (tC x) (length (running_mean s)))
      (\<lambda>cd. bdim cd (length (running_var s))) \<noteq> None)"
  by (auto simp: sparsify_def split: option.splits)

lemma sparsify_raises: "sparsify s x = Inl e \<Longrightarrow> e = RuntimeError"
  by (auto simp: sparsify_def split: option.splits if_splits)

lemma forward_raises: "fst (forward s x) = Inl e \<Longrightarrow> e = RuntimeError"
  using update_statistics_cases [of s x] sparsify_raises [of "snd (update_statistics s x)" x e]
  by (cases "update_statistics s x") (auto simp: forward_def split: sum.splits)

lemma forward_returns_iff:
  "(\<exists>r. fst (forward s x) = Inr r) \<longleftrightarrow>
   (flag_update_statistics s = 0 \<or>
    ((tC x = length (running_mean s) \<or> tC x = 1) \<and>
     (tC x = length (running_var s) \<or> tC x = 1))) \<and>
   bdim (tC x) (length (running_mean s)) \<noteq> None \<and>
   (threshold s = Fin 0 \<or>
    Option.bind (bdim (tC x) (length (running_mean s)))
      (\<lambda>cd. bdim cd (length (running_var s))) \<noteq> None)"
  using sparsify_returns_iff [of "snd (update_statistics s x)" x]
  by (simp add: forward_returns update_statistics_returns_iff update_statistics_lengths
      update_statistics_threshold)

lemma forward_raises_or_returns:
  "(\<exists>r. fst (forward s x) = Inr r) \<or> fst (forward s x) = Inl RuntimeError"
  using forward_raises [of s x] by (cases "fst (forward s x)") auto

lemma forward_no_broadcast:
  "bdim (tC x) (length (running_mean s)) = None \<Longrightarrow> fst (forward s x) = Inl RuntimeError"
  using forward_returns_iff [of s x] forward_raises_or_returns [of s x] by auto

lemma example_state3_fields:
  "running_mean example_state3 = [Fin 1, Fin 2, Fin 3]"
  "running_var example_state3 = [Fin 0, Fin 0, Fin 0]"
  "threshold example_state3 = Fin 1"
  "flag_update_statistics example_state3 = 1"
  "batch_num example_state3 = Fin 2"
  by (simp_all add: example_state3_def)

lemma example_state23_fields:
  "running_mean example_state23 = [Fin 1, Fin 2]"
  "running_var example_state23 = [Fin 0, Fin 0, Fin 0]"
  "threshold example_state23 = Fin 1"
  "flag_update_statistics example_state23 = 1"
  "batch_num example_state23 = Fin 2"
  by (simp_all add: example_state23_def)

lemma example_input_channels: "tC example_input = 2"
  by (simp add: example_input_def)

lemma example_x2_channels: "tC example_x2 = 2"
  by (simp add: example_x2_def)

text \<open>
  Claim C1, as amended.  \<^verbatim>\<open>forward\<close> either returns a tensor or raises a
  \<^verbatim>\<open>RuntimeError\<close>.  It returns exactly when the channel count of the input broadcasts
  against the length of \<open>running_mean\<close> (they are equal or one of them is 1), when
  moreover, if the threshold is not 0, the broadcast of the two broadcasts against the
  length of \<open>running_var\<close>, and when moreover, if \<open>flag_update_statistics\<close> is not 0,
  the channel count is 1 or the length of \<open>running_mean\<close> and is 1 or the length of
  \<open>running_var\<close>; in particular it returns when the channel count is the length of both
  buffers, and it raises whenever the channel count does not broadcast against
  \<open>running_mean\<close>, also with threshold 0.  When it returns and the threshold is 0, the
  result is the input itself; when it returns and the threshold is not 0, the result has
  the batch, height and width of the input and holds, at every position, the
  \<open>running_mean\<close> value of the channel where
  \<open>|input - running_mean| < threshold * sqrt running_var\<close>, and the input value
  elsewhere.  The statistics are the buffers as they stand after the call, a size-1
  channel dimension is read at index 0, and the comparison is the one of the float
  types (false where one side is NaN).
\<close>

theorem forward_output:
  "(tC x = length (running_mean s) \<and> tC x = length (running_var s) \<longrightarrow>
      (\<exists>r. fst (forward s x) = Inr r)) \<and>
   (fst (forward s x) = Inr out \<longrightarrow>
      (threshold s = Fin 0 \<longrightarrow> out = x) \<and>
      (threshold s \<noteq> Fin 0 \<longrightarrow>
         tN out = tN x \<and> tH out = tH x \<and> tW out = tW x \<and>
         Some (tC out) =
           Option.bind (bdim (tC x) (length (running_mean (snd (forward s x)))))
             (\<lambda>cd. bdim cd (length (running_var (snd (forward s x))))) \<and>
         (\<forall>n c h w.
            elem out n c h w =
              (let m = running_mean (snd (forward s x))
                         ! bidx (length (running_mean (snd (forward s x)))) c;
                   v = running_var (snd (forward s x))
                         ! bidx (length (running_var (snd (forward s x)))) c;
                   xv = elem x n (bidx (tC x) c) h w
               in if flt (fabs (fsub xv m)) (fmul (threshold s) (fsqrt v)) then m else xv)))) \<and>
   ((\<exists>r. fst (forward s x) = Inr r) \<or> fst (forward s x) = Inl RuntimeError) \<and>
   ((\<exists>r. fst (forward s x) = Inr r) =
      ((flag_update_statistics s = 0 \<or>
        ((tC x = length (running_mean s) \<or> tC x = 1) \<and>
         (tC x = length (running_var s) \<or> tC x = 1))) \<and>
       bdim (tC x) (length (running_mean s)) \<noteq> None \<and>
       (threshold s = Fin 0 \<or>
        Option.bind (bdim (tC x) (length (running_mean s)))
          (\<lambda>cd. bdim cd (length (running_var s))) \<noteq> None))) \<and>
   (bdim (tC x) (length (running_mean s)) = None \<longrightarrow>
      fst (forward s x) = Inl RuntimeError)"
proof (intro conjI impI)
  show "(\<exists>r. fst (forward s x) = Inr r) \<or> fst (forward s x) = Inl RuntimeError"
    by (rule forward_raises_or_returns)
next
  show "(\<exists>r. fst (forward s x) = Inr r) =
      ((flag_update_statistics s = 0 \<or>
        ((tC x = length (running_mean s) \<or> tC x = 1) \<and>
         (tC x = length (running_var s) \<or> tC x = 1))) \<and>
       bdim (tC x) (length (running_mean s)) \<noteq> None \<and>
       (threshold s = Fin 0 \<or>
        Option.bind (bdim (tC x) (length (running_mean s)))
          (\<lambda>cd. bdim cd (length (running_var s))) \<noteq> None))"
    by (rule forward_returns_iff)
next
  assume "bdim (tC x) (length (running_mean s)) = None"
  then show "fst (forward s x) = Inl RuntimeError"
    by (rule forward_no_broadcast)
next
  assume "tC x = length (running_mean s) \<and> tC x = length (running_var s)"
  then have u: "fst (update_statistics s x) = Inr ()"
    and "tC x = length (running_mean (snd (update_statistics s x)))"
    and "tC x = length (running_var (snd (update_statistics s x)))"
    using update_statistics_same_channels [of x s] by simp_all
  then obtain r where "sparsify (snd (update_statistics s x)) x = Inr r"
    using sparsify_same_channels by blast
  with u show "\<exists>r. fst (forward s x) = Inr r"
    by (auto simp: forward_returns)
next
  assume "fst (forward s x) = Inr out" and "threshold s = Fin 0"
  then show "out = x"
    using sparsify_zero_out [of "snd (update_statistics s x)" x out]
    by (simp add: forward_returns update_statistics_threshold)
next
  assume r: "fst (forward s x) = Inr out" and t: "threshold s \<noteq> Fin 0"
  let ?s = "snd (update_statistics s x)"
  have sp: "sparsify ?s x = Inr out" using r by (simp add: forward_returns)
  have th: "threshold ?s = threshold s" by (rule update_statistics_threshold)
  note o = sparsify_nonzero_out [OF _ sp, unfolded th, OF t]
  show "tN out = tN x" "tH out = tH x" "tW out = tW x" using o by simp_all
  show "Some (tC out) =
           Option.bind (bdim (tC x) (length (running_mean (snd (forward s x)))))
             (\<lambda>cd. bdim cd (length (running_var (snd (forward s x)))))"
    using o by (simp add: forward_snd)
  show "\<forall>n c h w.
            elem out n c h w =
              (let m = running_mean (snd (forward s x))
                         ! bidx (length (running_mean (snd (forward s x)))) c;
                   v = running_var (snd (forward s x))
                         ! bidx (length (running_var (snd (forward s x)))) c;
                   xv = elem x n (bidx (tC x) c) h w
               in if flt (fabs (fsub xv m)) (fmul (threshold s) (fsqrt v)) then m else xv)"
    using o by (simp add: forward_snd where_elem_eq Let_def)
qed

theorem forward_output_witness:
  "tC example_input = length (running_mean example_state) \<and>
   tC example_input = length (running_var example_state) \<and>
   threshold (example_state\<lparr>threshold := Fin 0\<rparr>) = Fin 0 \<and>
   fst (forward (example_state\<lparr>threshold := Fin 0\<rparr>) example_input) = Inr example_input \<and>
   fst (forward example_state example_input) =
     Inr (projr (fst (forward example_state example_input))) \<and>
   threshold example_state \<noteq> Fin 0 \<and>
   elem (projr (fst (forward example_state example_input))) 0 0 0 0 = Fin (5 / 2) \<and>
   elem (projr (fst (forward example_state example_input))) 0 0 0 1 = Fin 4 \<and>
   elem (projr (fst (forward example_state example_input))) 0 1 0 0 = Fin 1 \<and>
   elem (projr (fst (forward example_state example_input))) 0 1 0 1 = Fin (7 / 2) \<and>
   bdim (tC example_x2) (length (running_mean (MeanSparse_init 3))) = None \<and>
   threshold (MeanSparse_init 3) = Fin 0 \<and>
   fst (forward (MeanSparse_init 3) example_x2) = Inl RuntimeError \<and>
   bdim (tC (example_x2\<lparr>tC := 3\<rparr>)) (length (running_mean (MeanSparse_init 1))) \<noteq> None \<and>
   fst (forward (MeanSparse_init 1\<lparr>flag_update_statistics := 1\<rparr>) (example_x2\<lparr>tC := 3\<rparr>))
     = Inl RuntimeError"
proof -
  have b: "bdim (tC example_x2) (length (running_mean (MeanSparse_init 3))) = None"
    "threshold (MeanSparse_init 3) = Fin 0"
    "bdim (tC (example_x2\<lparr>tC := 3\<rparr>)) (length (running_mean (MeanSparse_init 1))) \<noteq> None"
    by (simp_all add: example_x2_def MeanSparse_init_def bdim_def)
  have r3: "fst (forward (MeanSparse_init 3) example_x2) = Inl RuntimeError"
    using forward_output [of example_x2 "MeanSparse_init 3"] b(1) by blast
  have "\<not> (\<exists>r. fst (forward (MeanSparse_init 1\<lparr>flag_update_statistics := 1\<rparr>)
                       (example_x2\<lparr>tC := 3\<rparr>)) = Inr r)"
    using forward_output [of "example_x2\<lparr>tC := 3\<rparr>"
        "MeanSparse_init 1\<lparr>flag_update_statistics := 1\<rparr>"]
    by (simp add: example_x2_def MeanSparse_init_def)
  then have r1: "fst (forward (MeanSparse_init 1\<lparr>flag_update_statistics := 1\<rparr>)
                        (example_x2\<lparr>tC := 3\<rparr>)) = Inl RuntimeError"
    using forward_output [of "example_x2\<lparr>tC := 3\<rparr>"
        "MeanSparse_init 1\<lparr>flag_update_statistics := 1\<rparr>"]
    by blast
  have t: "threshold example_state \<noteq> Fin 0" "threshold example_state = Fin 1"
    by (simp_all add: example_state_def)
  have s: "running_mean (snd (forward example_state example_input)) = [Fin (5/2), Fin (7/2)]"
          "running_var (snd (forward example_state example_input)) = [Fin 1, Fin 4]"
    unfolding example_forward by simp_all
  have e: "tC example_input = 2"
    by (simp add: example_input_def)
  from forward_output [of example_input example_state
      "projr (fst (forward example_state example_input))"] example_returns t(1)
  have "\<forall>n c h w.
      elem (projr (fst (forward example_state example_input))) n c h w =
        (let m = running_mean (snd (forward example_state example_input))
                   ! bidx (length (running_mean (snd (forward example_state example_input)))) c;
             v = running_var (snd (forward example_state example_input))
                   ! bidx (length (running_var (snd (forward example_state example_input)))) c;
             xv = elem example_input n (bidx (tC example_input) c) h w
         in if flt (fabs (fsub xv m)) (fmul (threshold example_state) (fsqrt v))
            then m else xv)"
    by blast
  then have "\<forall>n c h w.
      elem (projr (fst (forward example_state example_input))) n c h w =
        (let m = [Fin (5/2), Fin (7/2)] ! c; v = [Fin 1, Fin 4] ! c;
             xv = elem example_input n c h w
         in if flt (fabs (fsub xv m)) (fmul (Fin 1) (fsqrt v)) then m else xv)"
    by (simp add: s e t(2) bidx_def)
  then have nz:
   "elem (projr (fst (forward example_state example_input))) 0 0 0 0 = Fin (5 / 2) \<and>
    elem (projr (fst (forward example_state example_input))) 0 0 0 1 = Fin 4 \<and>
    elem (projr (fst (forward example_state example_input))) 0 1 0 0 = Fin 1 \<and>
    elem (projr (fst (forward example_state example_input))) 0 1 0 1 = Fin (7 / 2)"
    by (simp add: example_input_def Let_def fsub_def)
  have c: "tC example_input = length (running_mean example_state)"
    "tC example_input = length (running_var example_state)"
    by (simp_all add: example_state_def example_input_def)
  let ?z = "example_state\<lparr>threshold := Fin 0\<rparr>"
  have "\<exists>r. fst (forward ?z example_input) = Inr r"
    using forward_output [of example_input ?z] c by simp
  then obtain r where r: "fst (forward ?z example_input) = Inr r" by blast
  then have "r = example_input"
    using forward_output [of example_input ?z r] by simp
  with r have z: "fst (forward ?z example_input) = Inr example_input" by simp
  show ?thesis
    using example_returns t(1) nz c z b r3 r1 by simp
qed

text \<open>
  Claim C1, as stated, fails: with threshold 0 and three channels of statistics, an input
  with two channels is not returned; \<^verbatim>\<open>diff = input - bias\<close> raises.
\<close>

theorem forward_output_counterexample:
  "fst (forward
          \<lparr>running_mean = [Fin 0, Fin 0, Fin 0], running_var = [Fin 1, Fin 1, Fin 1],
            threshold = Fin 0, flag_update_statistics = 0, batch_num = Fin 1\<rparr>
          \<lparr>tN = 1, tC = 2, tH = 1, tW = 1, elem = (\<lambda>n c h w. Fin 0)\<rparr>)
     = Inl RuntimeError \<and>
   fst (forward
          \<lparr>running_mean = [Fin 0, Fin 0, Fin 0], running_var = [Fin 1, Fin 1, Fin 1],
            threshold = Fin 0, flag_update_statistics = 0, batch_num = Fin 1\<rparr>
          \<lparr>tN = 1, tC = 2, tH = 1, tW = 1, elem = (\<lambda>n c h w. Fin 0)\<rparr>)
     \<noteq> Inr \<lparr>tN = 1, tC = 2, tH = 1, tW = 1, elem = (\<lambda>n c h w. Fin 0)\<rparr>"
  by (simp add: forward_def update_statistics_def sparsify_def bdim_def)

text \<open>
  Claim C2, as amended.  When \<open>flag_update_statistics\<close> is 0, \<^verbatim>\<open>forward\<close> leaves all
  five buffers unchanged, whatever the input and the outcome.  When the flag is not 0
  and the channel count of the input is 1 or the length of \<open>running_mean\<close> and is 1 or
  the length of \<open>running_var\<close>, it adds to \<open>running_mean\<close> the mean, and to
  \<open>running_var\<close> the variance, of the input over batch, height and width, divided by
  \<open>batch_num\<close>, and leaves the other three buffers as they are.  When the flag is not 0
  and the channel count is neither 1 nor the length of \<open>running_mean\<close>, the first
  \<^verbatim>\<open>+=\<close> raises a \<^verbatim>\<open>RuntimeError\<close> and no buffer is changed; when it fits
  \<open>running_mean\<close> but is neither 1 nor the length of \<open>running_var\<close>, the second
  \<^verbatim>\<open>+=\<close> raises after \<open>running_mean\<close> alone has been updated.  The division is the
  one of the float types: with the initial \<open>batch_num\<close> of 0 the quotient that is added
  is an infinity or NaN.
\<close>

theorem forward_statistics:
  "(flag_update_statistics s = 0 \<longrightarrow> snd (forward s x) = s) \<and>
   (flag_update_statistics s \<noteq> 0 \<longrightarrow>
    (tC x = length (running_mean s) \<or> tC x = 1) \<longrightarrow>
    (tC x = length (running_var s) \<or> tC x = 1) \<longrightarrow>
      snd (forward s x) =
        s\<lparr>running_mean :=
            map (\<lambda>c. fadd (running_mean s ! c)
                         (fdiv (torch_mean x ! bidx (tC x) c) (batch_num s)))
              [0..<length (running_mean s)],
          running_var :=
            map (\<lambda>c. fadd (running_var s ! c)
                         (fdiv (torch_var x ! bidx (tC x) c) (batch_num s)))
              [0..<length (running_var s)]\<rparr>) \<and>
   (flag_update_statistics s \<noteq> 0 \<longrightarrow>
    \<not> (tC x = length (running_mean s) \<or> tC x = 1) \<longrightarrow>
      forward s x = (Inl RuntimeError, s)) \<and>
   (flag_update_statistics s \<noteq> 0 \<longrightarrow>
    (tC x = length (running_mean s) \<or> tC x = 1) \<longrightarrow>
    \<not> (tC x = length (running_var s) \<or> tC x = 1) \<longrightarrow>
      forward s x =
        (Inl RuntimeError,
         s\<lparr>running_mean :=
             map (\<lambda>c. fadd (running_mean s ! c)
                          (fdiv (torch_mean x ! bidx (tC x) c) (batch_num s)))
               [0..<length (running_mean s)]\<rparr>))"
proof (intro conjI impI)
  assume "flag_update_statistics s = 0"
  then show "snd (forward s x) = s"
    by (simp add: forward_snd update_statistics_flag_zero)
next
  assume "flag_update_statistics s \<noteq> 0"
    and "tC x = length (running_mean s) \<or> tC x = 1"
    and "tC x = length (running_var s) \<or> tC x = 1"
  then show "snd (forward s x) =
        s\<lparr>running_mean :=
            map (\<lambda>c. fadd (running_mean s ! c)
                         (fdiv (torch_mean x ! bidx (tC x) c) (batch_num s)))
              [0..<length (running_mean s)],
          running_var :=
            map (\<lambda>c. fadd (running_var s ! c)
                         (fdiv (torch_var x ! bidx (tC x) c) (batch_num s)))
              [0..<length (running_var s)]\<rparr>"
    by (simp add: forward_snd update_statistics_ok)
next
  assume "flag_update_statistics s \<noteq> 0"
    and "\<not> (tC x = length (running_mean s) \<or> tC x = 1)"
  then show "forward s x = (Inl RuntimeError, s)"
    using update_statistics_bad_mean [of s x] by (simp add: forward_def)
next
  assume "flag_update_statistics s \<noteq> 0"
    and "tC x = length (running_mean s) \<or> tC x = 1"
    and "\<not> (tC x = length (running_var s) \<or> tC x = 1)"
  then show "forward s x =
        (Inl RuntimeError,
         s\<lparr>running_mean :=
             map (\<lambda>c. fadd (running_mean s ! c)
                          (fdiv (torch_mean x ! bidx (tC x) c) (batch_num s)))
               [0..<length (running_mean s)]\<rparr>)"
    using update_statistics_bad_var [of s x] by (simp add: forward_def)
qed

theorem forward_statistics_witness:
  "flag_update_statistics example_state \<noteq> 0 \<and>
   tC example_input = length (running_mean example_state) \<and>
   tC example_input = length (running_var example_state) \<and>
   snd (forward example_state example_input) =
     example_state\<lparr>running_mean := [Fin (5 / 2), Fin (7 / 2)],
                   running_var := [Fin 1, Fin 4]\<rparr> \<and>
   snd (forward (example_state\<lparr>batch_num := Fin 0\<rparr>) example_input) =
     example_state\<lparr>batch_num := Fin 0, running_mean := [PInf, PInf],
                   running_var := [PInf, PInf]\<rparr> \<and>
   flag_update_statistics (example_state\<lparr>flag_update_statistics := 0\<rparr>) = 0 \<and>
   snd (forward (example_state\<lparr>flag_update_statistics := 0\<rparr>) example_input) =
     example_state\<lparr>flag_update_statistics := 0\<rparr> \<and>
   flag_update_statistics (example_state3\<lparr>batch_num := Fin 4\<rparr>) \<noteq> 0 \<and>
   \<not> (tC example_input = length (running_mean (example_state3\<lparr>batch_num := Fin 4\<rparr>)) \<or>
      tC example_input = 1) \<and>
   forward (example_state3\<lparr>batch_num := Fin 4\<rparr>) example_input =
     (Inl RuntimeError, example_state3\<lparr>batch_num := Fin 4\<rparr>) \<and>
   flag_update_statistics example_state23 \<noteq> 0 \<and>
   (tC example_input = length (running_mean example_state23) \<or> tC example_input = 1) \<and>
   \<not> (tC example_input = length (running_var example_state23) \<or> tC example_input = 1) \<and>
   forward example_state23 example_input =
     (Inl RuntimeError, example_state23\<lparr>running_mean := [Fin (5 / 2), Fin (7 / 2)]\<rparr>)"
proof -
  have f: "flag_update_statistics example_state \<noteq> 0"
    and c: "tC example_input = length (running_mean example_state)"
           "tC example_input = length (running_var example_state)"
    by (simp_all add: example_state_def example_input_def)
  have v: "tC example_input = 2" "running_mean example_state = [Fin 1, Fin 2]"
    "running_var example_state = [Fin 0, Fin 0]" "batch_num example_state = Fin 2"
    by (simp_all add: example_state_def example_input_def)
  have "snd (forward example_state example_input) =
        example_state\<lparr>running_mean :=
            map (\<lambda>c. fadd (running_mean example_state ! c)
                       (fdiv (torch_mean example_input ! bidx (tC example_input) c)
                          (batch_num example_state)))
              [0..<length (running_mean example_state)],
          running_var :=
            map (\<lambda>c. fadd (running_var example_state ! c)
                       (fdiv (torch_var example_input ! bidx (tC example_input) c)
                          (batch_num example_state)))
              [0..<length (running_var example_state)]\<rparr>"
    using forward_statistics [of example_state example_input] f c by blast
  then have u: "snd (forward example_state example_input) =
     example_state\<lparr>running_mean := [Fin (5 / 2), Fin (7 / 2)],
                   running_var := [Fin 1, Fin 4]\<rparr>"
    by (simp add: example_mean example_var v bidx_def upt_rec)
  have "snd (forward (example_state\<lparr>batch_num := Fin 0\<rparr>) example_input) =
        example_state\<lparr>batch_num := Fin 0, running_mean :=
            map (\<lambda>c. fadd (running_mean example_state ! c)
                       (fdiv (torch_mean example_input ! bidx (tC example_input) c) (Fin 0)))
              [0..<length (running_mean example_state)],
          running_var :=
            map (\<lambda>c. fadd (running_var example_state ! c)
                       (fdiv (torch_var example_input ! bidx (tC example_input) c) (Fin 0)))
              [0..<length (running_var example_state)]\<rparr>"
    using forward_statistics [of "example_state\<lparr>batch_num := Fin 0\<rparr>" example_input] f c
    by simp
  then have w: "snd (forward (example_state\<lparr>batch_num := Fin 0\<rparr>) example_input) =
     example_state\<lparr>batch_num := Fin 0, running_mean := [PInf, PInf],
                   running_var := [PInf, PInf]\<rparr>"
    by (simp add: example_mean example_var v bidx_def upt_rec)
  have z: "snd (forward (example_state\<lparr>flag_update_statistics := 0\<rparr>) example_input) =
     example_state\<lparr>flag_update_statistics := 0\<rparr>"
    using forward_statistics [of "example_state\<lparr>flag_update_statistics := 0\<rparr>" example_input]
    by simp
  let ?s3 = "example_state3\<lparr>batch_num := Fin 4\<rparr>"
  have h3: "flag_update_statistics ?s3 \<noteq> 0"
    "\<not> (tC example_input = length (running_mean ?s3) \<or> tC example_input = 1)"
    by (simp_all add: example_state3_fields example_input_channels)
  have m3: "forward ?s3 example_input = (Inl RuntimeError, ?s3)"
    using forward_statistics [of ?s3 example_input] h3 by blast
  have h23: "flag_update_statistics example_state23 \<noteq> 0"
    "tC example_input = length (running_mean example_state23) \<or> tC example_input = 1"
    "\<not> (tC example_input = length (running_var example_state23) \<or> tC example_input = 1)"
    by (simp_all add: example_state23_fields example_input_channels)
  have "forward example_state23 example_input =
        (Inl RuntimeError,
         example_state23\<lparr>running_mean :=
             map (\<lambda>c. fadd (running_mean example_state23 ! c)
                          (fdiv (torch_mean example_input ! bidx (tC example_input) c)
                             (batch_num example_state23)))
               [0..<length (running_mean example_state23)]\<rparr>)"
    using forward_statistics [of example_state23 example_input] h23 by blast
  then have m23: "forward example_state23 example_input =
     (Inl RuntimeError, example_state23\<lparr>running_mean := [Fin (5 / 2), Fin (7 / 2)]\<rparr>)"
    by (simp add: example_mean example_state23_fields example_input_channels bidx_def upt_rec)
  show ?thesis using f c u w z h3 m3 h23 m23 by simp
qed

text \<open>
  Claim C2, as stated, fails: with the flag set, three channels of statistics and an
  input with two channels, \<^verbatim>\<open>forward\<close> raises at the first \<^verbatim>\<open>+=\<close> and adds nothing to
  \<open>running_mean\<close> or \<open>running_var\<close>, although the mean of the input over batch, height
  and width, divided by \<open>batch_num\<close>, is not 0.
\<close>

theorem forward_statistics_counterexample:
  "flag_update_statistics example_state3 \<noteq> 0 \<and>
   map (\<lambda>m. fdiv m (batch_num example_state3)) (torch_mean example_input)
     = [Fin (3 / 2), Fin (3 / 2)] \<and>
   fst (forward example_state3 example_input) = Inl RuntimeError \<and>
   running_mean (snd (forward example_state3 example_input)) = running_mean example_state3 \<and>
   running_var (snd (forward example_state3 example_input)) = running_var example_state3"
proof -
  have "update_statistics example_state3 example_input = (Inl RuntimeError, example_state3)"
    by (rule update_statistics_bad_mean)
      (simp_all add: example_state3_fields example_input_channels)
  then have "forward example_state3 example_input = (Inl RuntimeError, example_state3)"
    by (simp add: forward_def)
  then show ?thesis
    by (simp add: example_mean example_state3_fields)
qed

section \<open>The gradient of MeanSparse\<close>













section \<open>Properties of the WideResNet block\<close>

lemma block_forward_steps:
  assumes "fst (forward (meansparse_0 b) (batchnorm_0 b x)) = Inr y0"
    and "block_pad (stride b) (relu_0 b y0) = Inr v"
    and "fst (forward (meansparse_1 b) (batchnorm_1 b (conv_0 b v))) = Inr y1"
    and "block_skip b (if has_shortcut b then relu_0 b y0 else x) = Inr sk"
    and "torch_add sk (conv_1 b (relu_1 b y1)) = Inr s"
  shows "block_forward b x =
    (fst (forward (meansparse_2 b) s),
     b\<lparr>meansparse_0 := snd (forward (meansparse_0 b) (batchnorm_0 b x)),
       meansparse_1 := snd (forward (meansparse_1 b) (batchnorm_1 b (conv_0 b v))),
       meansparse_2 := snd (forward (meansparse_2 b) s)\<rparr>)"
proof -
  obtain m0 where 0: "forward (meansparse_0 b) (batchnorm_0 b x) = (Inr y0, m0)"
    using assms(1) by (cases "forward (meansparse_0 b) (batchnorm_0 b x)") simp
  obtain m1 where 1: "forward (meansparse_1 b) (batchnorm_1 b (conv_0 b v)) = (Inr y1, m1)"
    using assms(3) by (cases "forward (meansparse_1 b) (batchnorm_1 b (conv_0 b v))") simp
  obtain r m2 where 2: "forward (meansparse_2 b) s = (r, m2)"
    by (cases "forward (meansparse_2 b) s")
  show ?thesis
    using assms(2,4,5)
    by (cases "has_shortcut b") (simp_all add: block_forward_def 0 1 2 Let_def)
qed

lemma block_forward_meansparse_0:
  "meansparse_0 (snd (block_forward b x)) = snd (forward (meansparse_0 b) (batchnorm_0 b x))"
  by (cases "forward (meansparse_0 b) (batchnorm_0 b x)")
    (auto simp: block_forward_def Let_def split: sum.splits prod.splits)

lemma block_forward_bad_stride:
  assumes "fst (forward (meansparse_0 b) (batchnorm_0 b x)) = Inr y0"
    and "stride b \<noteq> 1" and "stride b \<noteq> 2"
  shows "fst (block_forward b x) = Inl (ValueError ''Unsupported `stride`.'')"
proof -
  obtain m0 where 0: "forward (meansparse_0 b) (batchnorm_0 b x) = (Inr y0, m0)"
    using assms(1) by (cases "forward (meansparse_0 b) (batchnorm_0 b x)") simp
  show ?thesis
    using assms(2,3) by (simp add: block_forward_def 0 Let_def block_pad_def)
qed

lemma block_forward_preactivation_raises:
  assumes "fst (forward (meansparse_0 b) (batchnorm_0 b x)) = Inl e"
  shows "fst (block_forward b x) = Inl e"
proof -
  obtain m0 where 0: "forward (meansparse_0 b) (batchnorm_0 b x) = (Inl e, m0)"
    using assms by (cases "forward (meansparse_0 b) (batchnorm_0 b x)") simp
  show ?thesis
    by (simp add: block_forward_def 0)
qed

lemma example_block_stride3_fields:
  "stride example_block_stride3 = 3" "batchnorm_0 example_block_stride3 = (\<lambda>t. t)"
  "meansparse_0 example_block_stride3 = MeanSparse_init 3"
  by (simp_all add: example_block_stride3_def Block_init_def)

lemma example_stride3_preactivation:
  "fst (forward (MeanSparse_init 3) example_x2) = Inl RuntimeError"
  by (rule forward_no_broadcast) (simp add: MeanSparse_init_def example_x2_def bdim_def)

lemma block_forward_meansparse_1:
  assumes "fst (forward (meansparse_0 b) (batchnorm_0 b x)) = Inr y0"
    and "block_pad (stride b) (relu_0 b y0) = Inr v"
  shows "meansparse_1 (snd (block_forward b x)) =
           snd (forward (meansparse_1 b) (batchnorm_1 b (conv_0 b v)))"
proof -
  obtain m0 where 0: "forward (meansparse_0 b) (batchnorm_0 b x) = (Inr y0, m0)"
    using assms(1) by (cases "forward (meansparse_0 b) (batchnorm_0 b x)") simp
  show ?thesis
    using assms(2)
    by (cases "forward (meansparse_1 b) (batchnorm_1 b (conv_0 b v))")
      (auto simp: block_forward_def 0 Let_def split: sum.splits prod.splits)
qed

lemma example_block_fields:
  "batchnorm_0 example_block = (\<lambda>t. t)" "relu_0 example_block = relu"
  "conv_0 example_block = example_conv3 2" "batchnorm_1 example_block = (\<lambda>t. t)"
  "relu_1 example_block = relu" "conv_1 example_block = (\<lambda>t. t)"
  "has_shortcut example_block" "shortcut example_block = Some (example_conv1 2)"
  "stride example_block = 1"
  "meansparse_0 example_block = MeanSparse_init 1"
  "meansparse_1 example_block = MeanSparse_init 2"
  "meansparse_2 example_block = MeanSparse_init 2"
  by (simp_all add: example_block_def Block_init_def)

lemma example_block_result:
  "fst (block_forward example_block example_x) =
     Inr (projr (fst (block_forward example_block example_x))) \<and>
   elem (projr (fst (block_forward example_block example_x))) 0 0 0 0 = Fin 0"
  by (simp add: block_forward_def example_block_fields forward_fresh Let_def block_pad_def
      block_skip_def torch_add_def bdim_def bidx_def F_pad_def example_conv3_def
      example_conv1_def relu_def example_x_def)

lemma block_forward_result:
  assumes "fst (forward (meansparse_0 b) (batchnorm_0 b x)) = Inr y0"
    and "block_pad (stride b) (relu_0 b y0) = Inr v"
    and "fst (forward (meansparse_1 b) (batchnorm_1 b (conv_0 b v))) = Inr y1"
    and "block_skip b (if has_shortcut b then relu_0 b y0 else x) = Inr sk"
  shows "fst (block_forward b x) =
    (case torch_add sk (conv_1 b (relu_1 b y1)) of
       Inl e \<Rightarrow> Inl e
     | Inr s \<Rightarrow> fst (forward (meansparse_2 b) s))"
proof -
  obtain m0 where 0: "forward (meansparse_0 b) (batchnorm_0 b x) = (Inr y0, m0)"
    using assms(1) by (cases "forward (meansparse_0 b) (batchnorm_0 b x)") simp
  obtain m1 where 1: "forward (meansparse_1 b) (batchnorm_1 b (conv_0 b v)) = (Inr y1, m1)"
    using assms(3) by (cases "forward (meansparse_1 b) (batchnorm_1 b (conv_0 b v))") simp
  show ?thesis
    using assms(2,4)
    by (cases "has_shortcut b")
      (simp_all add: block_forward_def 0 1 Let_def split: sum.splits prod.splits)
qed

text \<open>
  Claim C8.  \<open>has_shortcut\<close> is \<open>in_planes \<noteq> out_planes\<close>.  When the pre-activation
  \<open>relu_0 (y0)\<close>, with \<open>y0\<close> the result of \<open>meansparse_0\<close> on the batch-normalised block
  input, the padding and the second \<^verbatim>\<open>MeanSparse\<close> go through, then in a block with a
  shortcut the shortcut convolution is applied to the pre-activation, in a block without
  one the raw input \<open>x\<close> is added, and in both cases the sum goes through
  \<open>meansparse_2\<close>, whose result is the result of the block.
\<close>

theorem block_forward_dataflow:
  "has_shortcut (Block_init bn0 act cv0 bn1 cv1 sc i o' st) = (i \<noteq> o') \<and>
   (fst (forward (meansparse_0 b) (batchnorm_0 b x)) = Inr y0 \<and>
    block_pad (stride b) (relu_0 b y0) = Inr v \<and>
    fst (forward (meansparse_1 b) (batchnorm_1 b (conv_0 b v))) = Inr y1 \<longrightarrow>
      (has_shortcut b \<and> shortcut b = Some f \<longrightarrow>
         fst (block_forward b x) =
           (case torch_add (f (relu_0 b y0)) (conv_1 b (relu_1 b y1)) of
              Inl e \<Rightarrow> Inl e
            | Inr s \<Rightarrow> fst (forward (meansparse_2 b) s))) \<and>
      (\<not> has_shortcut b \<longrightarrow>
         fst (block_forward b x) =
           (case torch_add x (conv_1 b (relu_1 b y1)) of
              Inl e \<Rightarrow> Inl e
            | Inr s \<Rightarrow> fst (forward (meansparse_2 b) s))))"
proof (intro conjI impI)
  show "has_shortcut (Block_init bn0 act cv0 bn1 cv1 sc i o' st) = (i \<noteq> o')"
    by (simp add: Block_init_def)
next
  assume h: "fst (forward (meansparse_0 b) (batchnorm_0 b x)) = Inr y0 \<and>
    block_pad (stride b) (relu_0 b y0) = Inr v \<and>
    fst (forward (meansparse_1 b) (batchnorm_1 b (conv_0 b v))) = Inr y1"
    and s: "has_shortcut b \<and> shortcut b = Some f"
  have "block_skip b (if has_shortcut b then relu_0 b y0 else x) = Inr (f (relu_0 b y0))"
    using s by (simp add: block_skip_def)
  then show "fst (block_forward b x) =
           (case torch_add (f (relu_0 b y0)) (conv_1 b (relu_1 b y1)) of
              Inl e \<Rightarrow> Inl e
            | Inr s \<Rightarrow> fst (forward (meansparse_2 b) s))"
    using h block_forward_result [of b x y0 v y1] by simp
next
  assume h: "fst (forward (meansparse_0 b) (batchnorm_0 b x)) = Inr y0 \<and>
    block_pad (stride b) (relu_0 b y0) = Inr v \<and>
    fst (forward (meansparse_1 b) (batchnorm_1 b (conv_0 b v))) = Inr y1"
    and s: "\<not> has_shortcut b"
  have "block_skip b (if has_shortcut b then relu_0 b y0 else x) = Inr x"
    using s by (simp add: block_skip_def)
  then show "fst (block_forward b x) =
           (case torch_add x (conv_1 b (relu_1 b y1)) of
              Inl e \<Rightarrow> Inl e
            | Inr s \<Rightarrow> fst (forward (meansparse_2 b) s))"
    using h block_forward_result [of b x y0 v y1] by simp
qed

lemma example_block_plain_fields:
  "batchnorm_0 example_block_plain = (\<lambda>t. t)" "relu_0 example_block_plain = relu"
  "conv_0 example_block_plain = example_conv3 1" "batchnorm_1 example_block_plain = (\<lambda>t. t)"
  "relu_1 example_block_plain = relu" "conv_1 example_block_plain = (\<lambda>t. t)"
  "\<not> has_shortcut example_block_plain" "shortcut example_block_plain = None"
  "stride example_block_plain = 1"
  "meansparse_0 example_block_plain = MeanSparse_init 1"
  "meansparse_1 example_block_plain = MeanSparse_init 1"
  "meansparse_2 example_block_plain = MeanSparse_init 1"
  by (simp_all add: example_block_plain_def Block_init_def)

lemma example_preactivation:
  "fst (forward (MeanSparse_init 1) example_x) = Inr example_x"
  by (simp add: forward_fresh bdim_def example_x_def)

lemma example_pad:
  "block_pad 1 (relu example_x) = Inr (F_pad (1, 1, 1, 1) (relu example_x))"
  by (simp add: block_pad_def)

lemma example_conv_0:
  "fst (forward (MeanSparse_init k) (example_conv3 k t)) = Inr (example_conv3 k t)"
  by (simp add: forward_fresh bdim_def example_conv3_def)

theorem block_forward_dataflow_witness:
  "fst (forward (meansparse_0 example_block) (batchnorm_0 example_block example_x))
     = Inr example_x \<and>
   block_pad (stride example_block) (relu_0 example_block example_x)
     = Inr (F_pad (1, 1, 1, 1) (relu example_x)) \<and>
   fst (forward (meansparse_1 example_block)
          (batchnorm_1 example_block
             (conv_0 example_block (F_pad (1, 1, 1, 1) (relu example_x)))))
     = Inr (example_conv3 2 (F_pad (1, 1, 1, 1) (relu example_x))) \<and>
   has_shortcut example_block \<and> shortcut example_block = Some (example_conv1 2) \<and>
   elem (projr (fst (block_forward example_block example_x))) 0 0 0 0 = Fin 0 \<and>
   \<not> has_shortcut example_block_plain \<and>
   elem (projr (fst (block_forward example_block_plain example_x))) 0 0 0 0 = Fin (- 3)"
proof -
  have a: "fst (forward (meansparse_0 example_block) (batchnorm_0 example_block example_x))
     = Inr example_x"
    using example_preactivation by (simp add: example_block_fields)
  have b: "block_pad (stride example_block) (relu_0 example_block example_x)
     = Inr (F_pad (1, 1, 1, 1) (relu example_x))"
    by (simp add: example_block_fields example_pad)
  have c: "fst (forward (meansparse_1 example_block)
          (batchnorm_1 example_block
             (conv_0 example_block (F_pad (1, 1, 1, 1) (relu example_x)))))
     = Inr (example_conv3 2 (F_pad (1, 1, 1, 1) (relu example_x)))"
    by (simp add: example_block_fields example_conv_0)
  have d: "has_shortcut example_block \<and> shortcut example_block = Some (example_conv1 2)"
    by (simp add: example_block_fields)
  have "fst (block_forward example_block example_x) =
           (case torch_add (example_conv1 2 (relu_0 example_block example_x))
                   (conv_1 example_block (relu_1 example_block
                      (example_conv3 2 (F_pad (1, 1, 1, 1) (relu example_x))))) of
              Inl e \<Rightarrow> Inl e
            | Inr s \<Rightarrow> fst (forward (meansparse_2 example_block) s))"
    using block_forward_dataflow [of _ _ _ _ _ _ 0 0 _ example_block example_x example_x
        "F_pad (1, 1, 1, 1) (relu example_x)"
        "example_conv3 2 (F_pad (1, 1, 1, 1) (relu example_x))" "example_conv1 2"]
      a b c d
    by blast
  then have e: "elem (projr (fst (block_forward example_block example_x))) 0 0 0 0 = Fin 0"
    by (simp add: example_block_fields forward_fresh torch_add_def bdim_def bidx_def
        F_pad_def example_conv3_def example_conv1_def relu_def example_x_def)
  have a': "fst (forward (meansparse_0 example_block_plain)
                  (batchnorm_0 example_block_plain example_x)) = Inr example_x"
    using example_preactivation by (simp add: example_block_plain_fields)
  have b': "block_pad (stride example_block_plain) (relu_0 example_block_plain example_x)
     = Inr (F_pad (1, 1, 1, 1) (relu example_x))"
    by (simp add: example_block_plain_fields example_pad)
  have c': "fst (forward (meansparse_1 example_block_plain)
          (batchnorm_1 example_block_plain
             (conv_0 example_block_plain (F_pad (1, 1, 1, 1) (relu example_x)))))
     = Inr (example_conv3 1 (F_pad (1, 1, 1, 1) (relu example_x)))"
    using example_conv_0 [of 1] by (simp add: example_block_plain_fields)
  have d': "\<not> has_shortcut example_block_plain"
    by (simp add: example_block_plain_fields)
  have "fst (block_forward example_block_plain example_x) =
           (case torch_add example_x
                   (conv_1 example_block_plain (relu_1 example_block_plain
                      (example_conv3 1 (F_pad (1, 1, 1, 1) (relu example_x))))) of
              Inl e \<Rightarrow> Inl e
            | Inr s \<Rightarrow> fst (forward (meansparse_2 example_block_plain) s))"
    using block_forward_dataflow [of _ _ _ _ _ _ 0 0 _ example_block_plain example_x
        example_x "F_pad (1, 1, 1, 1) (relu example_x)"
        "example_conv3 1 (F_pad (1, 1, 1, 1) (relu example_x))"]
      a' b' c' d'
    by blast
  then have e': "elem (projr (fst (block_forward example_block_plain example_x))) 0 0 0 0
      = Fin (- 3)"
    by (simp add: example_block_plain_fields forward_fresh torch_add_def bdim_def bidx_def
        F_pad_def example_conv3_def relu_def example_x_def)
  show ?thesis using a b c d e d' e' by simp
qed

section \<open>Strides and padding\<close>

lemma preact_forward_unfold:
  assumes "preact_pad p t = Inr pt"
    and "preact_pad p (pre_relu_0 p (pre_batchnorm_0 p t)) = Inr pout"
  shows "preact_forward p t =
     (case (if pre_has_shortcut p
            then (case pre_shortcut p of
                    Some sc \<Rightarrow> Inr (sc pt) | None \<Rightarrow> Inl AttributeError)
            else Inr t) of
        Inl e \<Rightarrow> Inl e
      | Inr sk \<Rightarrow>
          torch_add
            (pre_conv_2d_2 p (pre_relu_1 p (pre_batchnorm_1 p (pre_conv_2d_1 p pout))))
            sk)"
  using assms by (simp add: preact_forward_def Let_def split: sum.splits option.splits)

lemma example_preact_fields:
  "pre_stride example_preact = 1" "pre_batchnorm_0 example_preact = (\<lambda>t. t)"
  "pre_relu_0 example_preact = relu" "pre_conv_2d_1 example_preact = example_conv3 1"
  "pre_batchnorm_1 example_preact = (\<lambda>t. t)" "pre_relu_1 example_preact = relu"
  "pre_conv_2d_2 example_preact = (\<lambda>t. t)" "\<not> pre_has_shortcut example_preact"
  "pre_shortcut example_preact = None"
  by (simp_all add: example_preact_def PreActBlock_init_def)

text \<open>
  Claim C6, as amended.  For every stride other than 1 and 2 the padding step of
  \<^verbatim>\<open>_Block.forward\<close> and \<^verbatim>\<open>_PreActBlock._pad\<close> raise
  \<^verbatim>\<open>ValueError('Unsupported `stride`.')\<close>.  \<^verbatim>\<open>_Block.forward\<close> runs \<open>batchnorm_0\<close> and
  \<open>meansparse_0\<close> before it looks at the stride: with such a stride it raises this
  \<^verbatim>\<open>ValueError\<close> when \<open>meansparse_0\<close> returns, and the exception of \<open>meansparse_0\<close> when
  that raises.  For stride 1 the tensor is padded by (1, 1, 1, 1) and for stride 2 by
  (0, 1, 0, 1), and it is the padded tensor that \<open>conv_0\<close>, \<open>conv_2d_1\<close> and the 3x3
  shortcut of the pre-activation block receive.
\<close>

theorem stride_padding:
  "(st \<noteq> 1 \<and> st \<noteq> 2 \<longrightarrow> block_pad st v = Inl (ValueError ''Unsupported `stride`.'')) \<and>
   block_pad 1 v = Inr (F_pad (1, 1, 1, 1) v) \<and>
   block_pad 2 v = Inr (F_pad (0, 1, 0, 1) v) \<and>
   (pre_stride p \<noteq> 1 \<and> pre_stride p \<noteq> 2 \<longrightarrow>
      preact_pad p t = Inl (ValueError ''Unsupported `stride`.'')) \<and>
   (pre_stride p = 1 \<longrightarrow> preact_pad p t = Inr (F_pad (1, 1, 1, 1) t)) \<and>
   (pre_stride p = 2 \<longrightarrow> preact_pad p t = Inr (F_pad (0, 1, 0, 1) t)) \<and>
   (fst (forward (meansparse_0 b) (batchnorm_0 b x)) = Inr y0 \<longrightarrow>
      (stride b \<noteq> 1 \<and> stride b \<noteq> 2 \<longrightarrow>
         fst (block_forward b x) = Inl (ValueError ''Unsupported `stride`.'')) \<and>
      (stride b = 1 \<longrightarrow>
         meansparse_1 (snd (block_forward b x)) =
           snd (forward (meansparse_1 b)
                  (batchnorm_1 b (conv_0 b (F_pad (1, 1, 1, 1) (relu_0 b y0)))))) \<and>
      (stride b = 2 \<longrightarrow>
         meansparse_1 (snd (block_forward b x)) =
           snd (forward (meansparse_1 b)
                  (batchnorm_1 b (conv_0 b (F_pad (0, 1, 0, 1) (relu_0 b y0))))))) \<and>
   (pre_stride p = 1 \<and> \<not> pre_has_shortcut p \<longrightarrow>
      preact_forward p t =
        torch_add
          (pre_conv_2d_2 p (pre_relu_1 p (pre_batchnorm_1 p (pre_conv_2d_1 p
             (F_pad (1, 1, 1, 1) (pre_relu_0 p (pre_batchnorm_0 p t)))))))
          t) \<and>
   (pre_stride p = 2 \<and> pre_has_shortcut p \<and> pre_shortcut p = Some sc \<longrightarrow>
      preact_forward p t =
        torch_add
          (pre_conv_2d_2 p (pre_relu_1 p (pre_batchnorm_1 p (pre_conv_2d_1 p
             (F_pad (0, 1, 0, 1) (pre_relu_0 p (pre_batchnorm_0 p t)))))))
          (sc (F_pad (0, 1, 0, 1) t))) \<and>
   (fst (forward (meansparse_0 b) (batchnorm_0 b x)) = Inl e \<longrightarrow>
      fst (block_forward b x) = Inl e)"
proof -
  have pad: "\<And>u. pre_stride p = 1 \<Longrightarrow> preact_pad p u = Inr (F_pad (1, 1, 1, 1) u)"
    "\<And>u. pre_stride p = 2 \<Longrightarrow> preact_pad p u = Inr (F_pad (0, 1, 0, 1) u)"
    by (simp_all add: preact_pad_def)
  have f1: "pre_stride p = 1 \<and> \<not> pre_has_shortcut p \<longrightarrow>
      preact_forward p t =
        torch_add
          (pre_conv_2d_2 p (pre_relu_1 p (pre_batchnorm_1 p (pre_conv_2d_1 p
             (F_pad (1, 1, 1, 1) (pre_relu_0 p (pre_batchnorm_0 p t)))))))
          t"
    using preact_forward_unfold [OF pad(1) pad(1), of t] by simp
  have f2: "pre_stride p = 2 \<and> pre_has_shortcut p \<and> pre_shortcut p = Some sc \<longrightarrow>
      preact_forward p t =
        torch_add
          (pre_conv_2d_2 p (pre_relu_1 p (pre_batchnorm_1 p (pre_conv_2d_1 p
             (F_pad (0, 1, 0, 1) (pre_relu_0 p (pre_batchnorm_0 p t)))))))
          (sc (F_pad (0, 1, 0, 1) t))"
    using preact_forward_unfold [OF pad(2) pad(2), of t] by simp
  have b1: "fst (forward (meansparse_0 b) (batchnorm_0 b x)) = Inr y0 \<Longrightarrow> stride b = 1 \<Longrightarrow>
         meansparse_1 (snd (block_forward b x)) =
           snd (forward (meansparse_1 b)
                  (batchnorm_1 b (conv_0 b (F_pad (1, 1, 1, 1) (relu_0 b y0)))))"
    by (rule block_forward_meansparse_1) (simp_all add: block_pad_def)
  have b2: "fst (forward (meansparse_0 b) (batchnorm_0 b x)) = Inr y0 \<Longrightarrow> stride b = 2 \<Longrightarrow>
         meansparse_1 (snd (block_forward b x)) =
           snd (forward (meansparse_1 b)
                  (batchnorm_1 b (conv_0 b (F_pad (0, 1, 0, 1) (relu_0 b y0)))))"
    by (rule block_forward_meansparse_1) (simp_all add: block_pad_def)
  show ?thesis
    using f1 f2 b1 b2 block_forward_bad_stride [of b x y0]
      block_forward_preactivation_raises [of b x e]
    by (simp add: block_pad_def preact_pad_def)
qed

theorem stride_padding_witness:
  "(3::int) \<noteq> 1 \<and> (3::int) \<noteq> 2 \<and>
   block_pad 3 example_x = Inl (ValueError ''Unsupported `stride`.'') \<and>
   pre_stride (example_preact\<lparr>pre_stride := 3\<rparr>) \<noteq> 1 \<and>
   pre_stride (example_preact\<lparr>pre_stride := 3\<rparr>) \<noteq> 2 \<and>
   preact_pad (example_preact\<lparr>pre_stride := 3\<rparr>) example_x
     = Inl (ValueError ''Unsupported `stride`.'') \<and>
   pre_stride example_preact = 1 \<and>
   preact_pad example_preact example_x = Inr (F_pad (1, 1, 1, 1) example_x) \<and>
   pre_stride (example_preact\<lparr>pre_stride := 2\<rparr>) = 2 \<and>
   preact_pad (example_preact\<lparr>pre_stride := 2\<rparr>) example_x
     = Inr (F_pad (0, 1, 0, 1) example_x) \<and>
   fst (forward (meansparse_0 (example_block\<lparr>stride := 3\<rparr>))
          (batchnorm_0 (example_block\<lparr>stride := 3\<rparr>) example_x)) = Inr example_x \<and>
   stride (example_block\<lparr>stride := 3\<rparr>) \<noteq> 1 \<and>
   stride (example_block\<lparr>stride := 3\<rparr>) \<noteq> 2 \<and>
   fst (block_forward (example_block\<lparr>stride := 3\<rparr>) example_x)
     = Inl (ValueError ''Unsupported `stride`.'') \<and>
   fst (forward (meansparse_0 example_block) (batchnorm_0 example_block example_x))
     = Inr example_x \<and>
   stride example_block = 1 \<and>
   meansparse_1 (snd (block_forward example_block example_x)) =
     snd (forward (MeanSparse_init 2)
            (example_conv3 2 (F_pad (1, 1, 1, 1) (relu example_x)))) \<and>
   stride (example_block\<lparr>stride := 2\<rparr>) = 2 \<and>
   meansparse_1 (snd (block_forward (example_block\<lparr>stride := 2\<rparr>) example_x)) =
     snd (forward (MeanSparse_init 2)
            (example_conv3 2 (F_pad (0, 1, 0, 1) (relu example_x)))) \<and>
   \<not> pre_has_shortcut example_preact \<and>
   preact_forward example_preact example_x =
     torch_add (relu (example_conv3 1 (F_pad (1, 1, 1, 1) (relu example_x)))) example_x \<and>
   pre_has_shortcut (example_preact\<lparr>pre_stride := 2, pre_has_shortcut := True,
                       pre_shortcut := Some (example_conv3 1)\<rparr>) \<and>
   preact_forward (example_preact\<lparr>pre_stride := 2, pre_has_shortcut := True,
                       pre_shortcut := Some (example_conv3 1)\<rparr>) example_x =
     torch_add (relu (example_conv3 1 (F_pad (0, 1, 0, 1) (relu example_x))))
       (example_conv3 1 (F_pad (0, 1, 0, 1) example_x)) \<and>
   fst (forward (meansparse_0 example_block_stride3)
          (batchnorm_0 example_block_stride3 example_x2)) = Inl RuntimeError \<and>
   fst (block_forward example_block_stride3 example_x2) = Inl RuntimeError"
proof -
  have q: "fst (forward (meansparse_0 example_block_stride3)
          (batchnorm_0 example_block_stride3 example_x2)) = Inl RuntimeError"
    by (simp add: example_block_stride3_fields example_stride3_preactivation)
  have r: "fst (block_forward example_block_stride3 example_x2) = Inl RuntimeError"
    using stride_padding [of _ _ _ _ example_block_stride3 example_x2 _ _ RuntimeError] q
    by blast
  have p: "fst (forward (MeanSparse_init (Suc 0)) example_x) = Inr example_x"
    using example_preactivation by simp
  note a = stride_padding [of 3 example_x "example_preact\<lparr>pre_stride := 3\<rparr>" example_x
      "example_block\<lparr>stride := 3\<rparr>" example_x example_x]
  note b = stride_padding [of 3 example_x example_preact example_x
      example_block example_x example_x]
  note c = stride_padding [of 3 example_x "example_preact\<lparr>pre_stride := 2\<rparr>" example_x
      "example_block\<lparr>stride := 2\<rparr>" example_x example_x]
  note d = stride_padding [of 3 example_x
      "example_preact\<lparr>pre_stride := 2, pre_has_shortcut := True,
                       pre_shortcut := Some (example_conv3 1)\<rparr>" example_x
      example_block example_x example_x "example_conv3 1"]
  show ?thesis
    using a b c d p q r by (simp add: example_block_fields example_preact_fields)
qed

text \<open>
  Claim C6, as stated, fails: \<^verbatim>\<open>_Block(3, 2, 3)\<close> has a stride other than 1 and 2, and
  on a tensor of two channels its \<^verbatim>\<open>forward\<close> raises the \<^verbatim>\<open>RuntimeError\<close> of
  \<open>meansparse_0\<close> (two channels against three of statistics), not the \<^verbatim>\<open>ValueError\<close>:
  the stride is looked at only afterwards.
\<close>

theorem stride_padding_counterexample:
  "stride example_block_stride3 \<noteq> 1 \<and> stride example_block_stride3 \<noteq> 2 \<and>
   fst (block_forward example_block_stride3 example_x2) = Inl RuntimeError \<and>
   fst (block_forward example_block_stride3 example_x2)
     \<noteq> Inl (ValueError ''Unsupported `stride`.'')"
proof -
  have "fst (block_forward example_block_stride3 example_x2) = Inl RuntimeError"
    by (rule block_forward_preactivation_raises)
      (simp add: example_block_stride3_fields example_stride3_preactivation)
  then show ?thesis
    by (simp add: example_block_stride3_fields)
qed

section \<open>Properties of the construction\<close>

lemma and_or_simps:
  "and_or False a b = b" "a \<noteq> 0 \<Longrightarrow> and_or True a b = a" "and_or True 0 b = b"
  by (simp_all add: and_or_def)

lemma BlockGroup_init_shape:
  assumes "1 \<le> nb"
  shows "BlockGroup_init nb i o' s =
           (and_or True i o', o', and_or True s 1) # replicate (nat nb - 1) (o', o', 1)"
proof -
  obtain k where k: "nat nb = Suc k" using assms by (cases "nat nb") auto
  have "map (\<lambda>i'. (and_or (i' = 0) i o', o', and_or (i' = 0) s 1)) [Suc 0..<Suc k]
          = map (\<lambda>i'. (o', o', 1)) [Suc 0..<Suc k]"
    by (rule map_cong) (auto simp: and_or_def)
  then show ?thesis
    by (simp add: BlockGroup_init_def k upt_conv_Cons map_replicate_const del: upt_Suc)
qed

lemma make_layer_shape:
  "make_layer i o' nb s =
     (and_or True i o', o', s) # replicate (nat (nb - 1)) (o', o', 1)"
proof -
  define k where "k = nat (nb - 1)"
  have z: "zip [Suc 0..<Suc k] (replicate k (1::int)) = map (\<lambda>j. (j, 1)) [Suc 0..<Suc k]"
    by (rule nth_equalityI) auto
  have "map (\<lambda>(i', st). (and_or (i' = 0) i o', o', st)) (map (\<lambda>j. (j, 1)) [Suc 0..<Suc k])
          = map (\<lambda>j. (o', o', 1)) [Suc 0..<Suc k]"
    unfolding map_map by (rule map_cong) (auto simp: and_or_def)
  then show ?thesis
    by (simp add: make_layer_def enumerate_list_def k_def [symmetric] upt_conv_Cons z
        map_replicate_const del: upt_Suc)
qed



lemma group_forward_step:
  "fst (block_forward b x) = Inr y \<Longrightarrow>
   fst (group_forward (b # bs) x) = fst (group_forward bs y)"
  by (cases "block_forward b x"; cases "group_forward bs y") simp

lemma example_preact_result:
  "preact_forward example_preact example_x =
     Inr (projr (preact_forward example_preact example_x)) \<and>
   elem (projr (preact_forward example_preact example_x)) 0 0 0 0 = Fin (- 3)"
  by (simp add: preact_forward_def preact_pad_def example_preact_fields Let_def
      torch_add_def bdim_def bidx_def F_pad_def example_conv3_def relu_def example_x_def)

text \<open>
  For every \<open>num_blocks \<ge> 1\<close> and every \<open>in_planes\<close> other than 0 (and, in
  \<^verbatim>\<open>_BlockGroup.__init__\<close>, every stride other than 0), the first block is constructed
  with the given \<open>in_planes\<close> and the given stride and every later block with
  \<open>out_planes\<close> as input width and stride 1; the blocks run in construction order, each
  on the result of the one before.
\<close>

lemma group_construction_nonzero:
  "(1 \<le> nb \<and> i \<noteq> 0 \<and> st \<noteq> 0 \<longrightarrow>
      BlockGroup_init nb i o' st = (i, o', st) # replicate (nat nb - 1) (o', o', 1)) \<and>
   (1 \<le> nb \<and> i \<noteq> 0 \<longrightarrow>
      make_layer i o' nb st = (i, o', st) # replicate (nat nb - 1) (o', o', 1)) \<and>
   (fst (block_forward b x) = Inr y \<longrightarrow>
      fst (group_forward (b # bs) x) = fst (group_forward bs y)) \<and>
   (preact_forward p t = Inr u \<longrightarrow>
      preact_layer_forward (p # ps) t = preact_layer_forward ps u)"
proof (intro conjI impI)
  assume "1 \<le> nb \<and> i \<noteq> 0 \<and> st \<noteq> 0"
  then show "BlockGroup_init nb i o' st = (i, o', st) # replicate (nat nb - 1) (o', o', 1)"
    by (simp add: BlockGroup_init_shape and_or_simps)
next
  assume "1 \<le> nb \<and> i \<noteq> 0"
  moreover have "nat (nb - 1) = nat nb - 1" by simp
  ultimately show "make_layer i o' nb st = (i, o', st) # replicate (nat nb - 1) (o', o', 1)"
    by (simp add: make_layer_shape and_or_simps)
next
  assume "fst (block_forward b x) = Inr y"
  then show "fst (group_forward (b # bs) x) = fst (group_forward bs y)"
    by (rule group_forward_step)
next
  assume "preact_forward p t = Inr u"
  then show "preact_layer_forward (p # ps) t = preact_layer_forward ps u"
    by simp
qed

lemma group_construction_example:
  "(1::int) \<le> 3 \<and> (16::int) \<noteq> 0 \<and> (2::int) \<noteq> 0 \<and>
   BlockGroup_init 3 16 160 2 = [(16, 160, 2), (160, 160, 1), (160, 160, 1)] \<and>
   (64::int) \<noteq> 0 \<and>
   make_layer 64 128 3 2 = [(64, 128, 2), (128, 128, 1), (128, 128, 1)] \<and>
   fst (block_forward example_block example_x) =
     Inr (projr (fst (block_forward example_block example_x))) \<and>
   fst (group_forward [example_block] example_x) =
     Inr (projr (fst (block_forward example_block example_x))) \<and>
   preact_forward example_preact example_x =
     Inr (projr (preact_forward example_preact example_x)) \<and>
   preact_layer_forward [example_preact] example_x =
     Inr (projr (preact_forward example_preact example_x))"
proof -
  note a = group_construction_nonzero [of 3 16 2 160 example_block example_x
      "projr (fst (block_forward example_block example_x))" "[]"
      example_preact example_x "projr (preact_forward example_preact example_x)" "[]"]
  note b = group_construction_nonzero [of 3 64 2 128]
  show ?thesis
    using a b example_block_result example_preact_result by (simp add: numeral_2_eq_2)
qed







section \<open>Which blocks embed MeanSparse\<close>

lemma is_MeanSparse_Block_modules:
  "map fst (filter (is_MeanSparse \<circ> snd) (Block_modules i o' st)) =
     [''meansparse_0'', ''meansparse_1'', ''meansparse_2'']"
  by (simp add: Block_modules_def)

lemma is_MeanSparse_PreActBlock_modules:
  "filter (is_MeanSparse \<circ> snd) (PreActBlock_modules i o' st) = []"
  by (simp add: PreActBlock_modules_def)

lemma example_skip:
  "block_skip example_block (if has_shortcut example_block then relu_0 example_block example_x
                             else example_x) = Inr (example_conv1 2 (relu example_x))"
  by (simp add: block_skip_def example_block_fields)

lemma example_sum:
  "torch_add (example_conv1 2 (relu example_x))
     (conv_1 example_block (relu_1 example_block
        (example_conv3 2 (F_pad (1, 1, 1, 1) (relu example_x))))) =
   Inr (projr (torch_add (example_conv1 2 (relu example_x))
     (conv_1 example_block (relu_1 example_block
        (example_conv3 2 (F_pad (1, 1, 1, 1) (relu example_x)))))))"
  by (simp add: example_block_fields torch_add_def bdim_def example_conv1_def
      example_conv3_def F_pad_def relu_def example_x_def)

text \<open>
  Claim C4, as amended.  Of the two residual block variants only \<^verbatim>\<open>_Block\<close> embeds the
  sparsification transform.  It registers three \<^verbatim>\<open>MeanSparse\<close> modules and its forward
  applies \<open>meansparse_0\<close> to the batch-normalised input, \<open>meansparse_1\<close> to the
  batch-normalised result of the first convolution and \<open>meansparse_2\<close> to the sum of the
  shortcut and the residual branch.  \<^verbatim>\<open>_PreActBlock\<close> registers no \<^verbatim>\<open>MeanSparse\<close>
  module, and its forward is a composition of its batch norms, activations and
  convolutions only.
\<close>

theorem blocks_and_meansparse:
  "map fst (filter (is_MeanSparse \<circ> snd) (Block_modules i o' st)) =
     [''meansparse_0'', ''meansparse_1'', ''meansparse_2''] \<and>
   filter (is_MeanSparse \<circ> snd) (PreActBlock_modules i o' st) = [] \<and>
   meansparse_0 (snd (block_forward b x)) =
     snd (forward (meansparse_0 b) (batchnorm_0 b x)) \<and>
   (fst (forward (meansparse_0 b) (batchnorm_0 b x)) = Inr y0 \<and>
    block_pad (stride b) (relu_0 b y0) = Inr v \<longrightarrow>
      meansparse_1 (snd (block_forward b x)) =
        snd (forward (meansparse_1 b) (batchnorm_1 b (conv_0 b v)))) \<and>
   (fst (forward (meansparse_0 b) (batchnorm_0 b x)) = Inr y0 \<and>
    block_pad (stride b) (relu_0 b y0) = Inr v \<and>
    fst (forward (meansparse_1 b) (batchnorm_1 b (conv_0 b v))) = Inr y1 \<and>
    block_skip b (if has_shortcut b then relu_0 b y0 else x) = Inr sk \<and>
    torch_add sk (conv_1 b (relu_1 b y1)) = Inr s \<longrightarrow>
      block_forward b x =
        (fst (forward (meansparse_2 b) s),
         b\<lparr>meansparse_0 := snd (forward (meansparse_0 b) (batchnorm_0 b x)),
           meansparse_1 := snd (forward (meansparse_1 b) (batchnorm_1 b (conv_0 b v))),
           meansparse_2 := snd (forward (meansparse_2 b) s)\<rparr>)) \<and>
   (preact_pad p t = Inr pt \<and>
    preact_pad p (pre_relu_0 p (pre_batchnorm_0 p t)) = Inr pout \<longrightarrow>
      preact_forward p t =
        (case (if pre_has_shortcut p
               then (case pre_shortcut p of
                       Some sc \<Rightarrow> Inr (sc pt) | None \<Rightarrow> Inl AttributeError)
               else Inr t) of
           Inl e \<Rightarrow> Inl e
         | Inr sk \<Rightarrow>
             torch_add
               (pre_conv_2d_2 p (pre_relu_1 p (pre_batchnorm_1 p (pre_conv_2d_1 p pout))))
               sk))"
  using is_MeanSparse_Block_modules [of i o' st]
    is_MeanSparse_PreActBlock_modules [of i o' st]
    block_forward_meansparse_0 [of b x]
    block_forward_meansparse_1 [of b x y0 v]
    block_forward_steps [of b x y0 v y1 sk s]
    preact_forward_unfold [of p t pt pout]
  by blast

theorem blocks_and_meansparse_witness:
  "fst (forward (meansparse_0 example_block) (batchnorm_0 example_block example_x))
     = Inr example_x \<and>
   block_pad (stride example_block) (relu_0 example_block example_x)
     = Inr (F_pad (1, 1, 1, 1) (relu example_x)) \<and>
   fst (forward (meansparse_1 example_block)
          (batchnorm_1 example_block
             (conv_0 example_block (F_pad (1, 1, 1, 1) (relu example_x)))))
     = Inr (example_conv3 2 (F_pad (1, 1, 1, 1) (relu example_x))) \<and>
   meansparse_1 (snd (block_forward example_block example_x)) =
     snd (forward (MeanSparse_init 2)
            (example_conv3 2 (F_pad (1, 1, 1, 1) (relu example_x)))) \<and>
   fst (block_forward example_block example_x) =
     fst (forward (MeanSparse_init 2)
       (projr (torch_add (example_conv1 2 (relu example_x))
          (conv_1 example_block (relu_1 example_block
             (example_conv3 2 (F_pad (1, 1, 1, 1) (relu example_x)))))))) \<and>
   preact_pad example_preact example_x = Inr (F_pad (1, 1, 1, 1) example_x) \<and>
   preact_forward example_preact example_x =
     torch_add (relu (example_conv3 1 (F_pad (1, 1, 1, 1) (relu example_x)))) example_x"
proof -
  have a: "fst (forward (meansparse_0 example_block) (batchnorm_0 example_block example_x))
     = Inr example_x"
    using example_preactivation by (simp add: example_block_fields)
  have b: "block_pad (stride example_block) (relu_0 example_block example_x)
     = Inr (F_pad (1, 1, 1, 1) (relu example_x))"
    by (simp add: example_block_fields example_pad)
  have c: "fst (forward (meansparse_1 example_block)
          (batchnorm_1 example_block
             (conv_0 example_block (F_pad (1, 1, 1, 1) (relu example_x)))))
     = Inr (example_conv3 2 (F_pad (1, 1, 1, 1) (relu example_x)))"
    by (simp add: example_block_fields example_conv_0)
  have q: "preact_pad example_preact example_x = Inr (F_pad (1, 1, 1, 1) example_x)"
    "preact_pad example_preact (pre_relu_0 example_preact
        (pre_batchnorm_0 example_preact example_x))
       = Inr (F_pad (1, 1, 1, 1) (relu example_x))"
    by (simp_all add: preact_pad_def example_preact_fields)
  note T = blocks_and_meansparse [of _ _ _ example_block example_x example_x
      "F_pad (1, 1, 1, 1) (relu example_x)"
      "example_conv3 2 (F_pad (1, 1, 1, 1) (relu example_x))"
      "example_conv1 2 (relu example_x)"
      "projr (torch_add (example_conv1 2 (relu example_x))
          (conv_1 example_block (relu_1 example_block
             (example_conv3 2 (F_pad (1, 1, 1, 1) (relu example_x))))))"
      example_preact example_x "F_pad (1, 1, 1, 1) example_x"
      "F_pad (1, 1, 1, 1) (relu example_x)"]
  have m1: "meansparse_1 (snd (block_forward example_block example_x)) =
        snd (forward (meansparse_1 example_block)
          (batchnorm_1 example_block
             (conv_0 example_block (F_pad (1, 1, 1, 1) (relu example_x)))))"
    using T a b by blast
  have r: "block_forward example_block example_x =
        (fst (forward (meansparse_2 example_block)
           (projr (torch_add (example_conv1 2 (relu example_x))
             (conv_1 example_block (relu_1 example_block
               (example_conv3 2 (F_pad (1, 1, 1, 1) (relu example_x)))))))),
         example_block\<lparr>meansparse_0 :=
             snd (forward (meansparse_0 example_block)
                    (batchnorm_0 example_block example_x)),
           meansparse_1 :=
             snd (forward (meansparse_1 example_block)
                (batchnorm_1 example_block
                   (conv_0 example_block (F_pad (1, 1, 1, 1) (relu example_x))))),
           meansparse_2 :=
             snd (forward (meansparse_2 example_block)
               (projr (torch_add (example_conv1 2 (relu example_x))
                 (conv_1 example_block (relu_1 example_block
                   (example_conv3 2 (F_pad (1, 1, 1, 1) (relu example_x))))))))\<rparr>)"
    using T a b c example_skip example_sum by blast
  have f: "preact_forward example_preact example_x =
        (case (if pre_has_shortcut example_preact
               then (case pre_shortcut example_preact of
                       Some sc \<Rightarrow> Inr (sc (F_pad (1, 1, 1, 1) example_x))
                     | None \<Rightarrow> Inl AttributeError)
               else Inr example_x) of
           Inl e \<Rightarrow> Inl e
         | Inr sk \<Rightarrow>
             torch_add
               (pre_conv_2d_2 example_preact (pre_relu_1 example_preact
                  (pre_batchnorm_1 example_preact (pre_conv_2d_1 example_preact
                     (F_pad (1, 1, 1, 1) (relu example_x))))))
               sk)"
    using T q by blast
  have m1': "meansparse_1 (snd (block_forward example_block example_x)) =
     snd (forward (MeanSparse_init 2)
            (example_conv3 2 (F_pad (1, 1, 1, 1) (relu example_x))))"
    using m1 by (simp add: example_block_fields)
  have r': "fst (block_forward example_block example_x) =
     fst (forward (MeanSparse_init 2)
       (projr (torch_add (example_conv1 2 (relu example_x))
          (conv_1 example_block (relu_1 example_block
             (example_conv3 2 (F_pad (1, 1, 1, 1) (relu example_x))))))))"
    unfolding r by (simp add: example_block_fields)
  have f': "preact_forward example_preact example_x =
     torch_add (relu (example_conv3 1 (F_pad (1, 1, 1, 1) (relu example_x)))) example_x"
    unfolding f by (simp add: example_preact_fields)
  show ?thesis
    using a b c m1' r' q(1) f' by blast
qed

text \<open>
  Claim C4, as stated, fails for the pre-activation block: the modules that
  \<^verbatim>\<open>_PreActBlock(64, 128, 2)\<close> registers are two batch norms, two activations and three
  convolutions, and none of them is a \<^verbatim>\<open>MeanSparse\<close>.
\<close>

theorem blocks_and_meansparse_counterexample:
  "map fst (PreActBlock_modules 64 128 2) =
     [''batchnorm_0'', ''relu_0'', ''conv_2d_1'', ''batchnorm_1'', ''relu_1'',
      ''conv_2d_2'', ''shortcut''] \<and>
   filter (is_MeanSparse \<circ> snd) (PreActBlock_modules 64 128 2) = []"
  by (simp add: PreActBlock_modules_def)

section \<open>The forward pass of the WideResNet on an example\<close>

lemma example_wrn_result:
  "elem (projr (fst (DMWideResNet_forward (\<lambda>k t. t) (\<lambda>c t. t) example_wrn example_x)))
     0 0 0 0 = Fin 0"
  by (simp add: DMWideResNet_forward_def example_wrn_def normalize_def bdim_def bidx_def
      example_block_plain_fields block_forward_def forward_fresh Let_def block_pad_def
      block_skip_def torch_add_def F_pad_def example_conv3_def relu_def example_x_def
      fsub_def)

end
